theory Spec2Isabelle
  imports Main
begin

section \<open>JavaScript values and strings\<close>

text \<open>
  A property of a request body or of a Mongoose document is absent (\<open>undefined\<close>), \<open>null\<close>
  or holds a value. Request bodies are JSON objects whose members of interest are strings
  or null; strings are sequences of 8-bit code units.
\<close>

datatype 'a js = Undefined | Null | Val 'a

text \<open>JavaScript truthiness of a string-valued property: only a non-empty string is truthy.\<close>

fun truthy :: "string js \<Rightarrow> bool" where
  "truthy (Val s) = (s \<noteq> [])"
| "truthy Null = False"
| "truthy Undefined = False"

text \<open>The class \<open>\s\<close> of JavaScript regular expressions, on code units below 256.\<close>

definition is_space :: "char \<Rightarrow> bool" where
  "is_space c = (of_char c \<in> {9, 10, 11, 12, 13, 32, 160 :: nat})"

definition is_digit :: "char \<Rightarrow> bool" where
  "is_digit c = (48 \<le> (of_char c :: nat) \<and> (of_char c :: nat) \<le> 57)"

definition trim :: "string \<Rightarrow> string" where
  "trim s = rev (dropWhile is_space (rev (dropWhile is_space s)))"

definition lower_char :: "char \<Rightarrow> char" where
  "lower_char c =
     (let n = (of_char c :: nat)
      in if (65 \<le> n \<and> n \<le> 90) \<or> (192 \<le> n \<and> n \<le> 222 \<and> n \<noteq> 215)
         then char_of (n + 32) else c)"

definition toLowerCase :: "string \<Rightarrow> string" where
  "toLowerCase s = map lower_char s"

text \<open>
  \<open>EMAIL_REGEX = /^[^\s@]+@[^\s@]+\.[^\s@]+$/\<close>. The three repeated classes exclude
  \<open>@\<close>, so a match has exactly one \<open>@\<close>: the local part is what stands before the first
  \<open>@\<close>, and the rest must be free of whitespace and \<open>@\<close> and hold a dot that is neither
  its first nor its last character.
\<close>

definition email_class :: "char \<Rightarrow> bool" where
  "email_class c = (\<not> is_space c \<and> c \<noteq> CHR ''@'')"

definition EMAIL_REGEX :: "string \<Rightarrow> bool" where
  "EMAIL_REGEX s =
     (let a = takeWhile (\<lambda>c. c \<noteq> CHR ''@'') s;
          r = drop (length a + 1) s
      in a \<noteq> [] \<and> length a < length s \<and> list_all email_class a \<and>
         list_all email_class r \<and> CHR ''.'' \<in> set (butlast (tl r)))"

text \<open>
  \<open>PHONE_REGEX = /^\+?[0-9\s\-()]{7,15}$/\<close>: an optional leading plus sign, then 7 to 15
  characters of the class (the plus sign is not in the class).
\<close>

definition phone_class :: "char \<Rightarrow> bool" where
  "phone_class c = (is_digit c \<or> is_space c \<or> c = CHR ''-'' \<or> c = CHR ''('' \<or> c = CHR '')'')"

definition PHONE_REGEX :: "string \<Rightarrow> bool" where
  "PHONE_REGEX s =
     (let r = (case s of [] \<Rightarrow> [] | c # cs \<Rightarrow> if c = CHR ''+'' then cs else s)
      in 7 \<le> length r \<and> length r \<le> 15 \<and> list_all phone_class r)"

text \<open>\<open>String.prototype.startsWith\<close> and \<open>String.prototype.split\<close> on a one-character separator.\<close>

definition startsWith :: "string \<Rightarrow> string \<Rightarrow> bool" where
  "startsWith s p = (take (length p) s = p)"

fun split_on :: "char \<Rightarrow> string \<Rightarrow> string list" where
  "split_on sep [] = [[]]"
| "split_on sep (c # cs) =
     (if c = sep then [] # split_on sep cs
      else (case split_on sep cs of
              [] \<Rightarrow> [[c]]
            | w # ws \<Rightarrow> (c # w) # ws))"

text \<open>Indexing an array: out of range gives \<open>undefined\<close>.\<close>

definition at_index :: "'a list \<Rightarrow> nat \<Rightarrow> 'a js" where
  "at_index xs i = (if i < length xs then Val (xs ! i) else Undefined)"

section \<open>Responses\<close>

type_synonym objectid = nat
type_synonym date = int

text \<open>
  The value handed to \<open>res.json\<close>: JSON, with object ids and dates kept as such (their
  string rendering is the serializer's).
\<close>

datatype json =
    JNull
  | JStr string
  | JId objectid
  | JDate date
  | JNum int
  | JArr "json list"
  | JObj "(string \<times> json) list"

record response =
  status :: nat
  body :: json

text \<open>The member names of a response body (none when the body is not an object).\<close>

fun members :: "json \<Rightarrow> string list" where
  "members (JObj kvs) = map fst kvs"
| "members _ = []"

definition json_msg :: "nat \<Rightarrow> string \<Rightarrow> response" where
  "json_msg code m = \<lparr> status = code, body = JObj [(''message'', JStr m)] \<rparr>"

section \<open>Configuration, libraries and errors\<close>

text \<open>\<open>process.env\<close>: the variables the server reads.\<close>

record env =
  JWT_SECRET :: "string option"
  JWT_EXPIRES_IN :: "string option"
  MONGO_URI :: "string option"
  PORT :: "string option"

text \<open>\<open>!v\<close> for an environment variable: unset or the empty string.\<close>

definition unset :: "string option \<Rightarrow> bool" where
  "unset v = (case v of None \<Rightarrow> True | Some s \<Rightarrow> s = [])"

text \<open>What the code and its libraries throw.\<close>

datatype exn =
    JwtSecretNotDefined
  | MongoUriNotSet
  | ConnectionError
  | JwtMustBeProvided
  | JwtMalformed
  | JwtInvalidSignature
  | JwtExpired
  | JwtSignError
  | BcryptIllegalArguments
  | ValidationError "string list"
  | DuplicateKey
  | DocumentNotFound

text \<open>
  The libraries the server calls are parameters of the model: \<open>bcryptjs\<close> (hash with
  a given salt, compare), \<open>jsonwebtoken\<close> (sign an id with a secret and a lifetime;
  verify a token with a secret, giving the \<open>id\<close> member of the payload, which may be
  missing), \<open>validator\<close>'s ISO-8601 test, the \<open>Date\<close> constructor on a string (\<open>None\<close> for
  an Invalid Date) and Mongoose's cast of a non-empty string to a \<open>Date\<close> (\<open>None\<close> for a
  cast error). The clock that signing and verification read is part of these functions.
\<close>

record platform =
  bcrypt_hash :: "string \<Rightarrow> string \<Rightarrow> string"
  bcrypt_compare :: "string \<Rightarrow> string \<Rightarrow> bool"
  jwt_sign :: "objectid \<Rightarrow> string \<Rightarrow> string \<Rightarrow> exn + string"
  jwt_verify :: "string \<Rightarrow> string \<Rightarrow> exn + objectid option"
  isISO8601 :: "string \<Rightarrow> bool"
  new_Date :: "string \<Rightarrow> date option"
  cast_Date :: "string \<Rightarrow> date option"

section \<open>The User model and the store\<close>

text \<open>
  A User document (\<open>models/User.js\<close>): \<open>username\<close>, \<open>password\<close> and \<open>email\<close> are required,
  \<open>phone\<close> and \<open>dob\<close> are optional, the timestamps come from \<open>timestamps: true\<close>.
  \<open>password\<close>, \<open>email\<close>, \<open>phone\<close> and \<open>dob\<close> can be \<open>undefined\<close> or \<open>null\<close> on a document in
  memory (deselected, or assigned by a handler).
\<close>

record user =
  uid :: objectid
  username :: string
  password :: "string js"
  email :: "string js"
  phone :: "string js"
  dob :: "date js"
  createdAt :: date
  updatedAt :: date

type_synonym store = "user list"

text \<open>A JSON request body: the members the handlers read.\<close>

record req_body =
  b_username :: "string js"
  b_password :: "string js"
  b_email :: "string js"
  b_phone :: "string js"
  b_dob :: "string js"

text \<open>The schema's setters: \<open>trim\<close> on \<open>username\<close> and \<open>phone\<close>, \<open>lowercase\<close> and \<open>trim\<close> on \<open>email\<close>.\<close>

fun map_js :: "('a \<Rightarrow> 'b) \<Rightarrow> 'a js \<Rightarrow> 'b js" where
  "map_js f (Val x) = Val (f x)"
| "map_js f Null = Null"
| "map_js f Undefined = Undefined"

definition set_username :: "string js \<Rightarrow> string js" where
  "set_username v = map_js trim v"

definition set_email :: "string js \<Rightarrow> string js" where
  "set_email v = map_js (\<lambda>s. trim (toLowerCase s)) v"

definition set_phone :: "string js \<Rightarrow> string js" where
  "set_phone v = map_js trim v"

text \<open>
  Casting to the schema's \<open>Date\<close>: the empty string casts to \<open>null\<close>; \<open>None\<close> is a cast
  error, which invalidates the path.
\<close>

definition cast_date :: "platform \<Rightarrow> string js \<Rightarrow> date js option" where
  "cast_date P v =
     (case v of
        Undefined \<Rightarrow> Some Undefined
      | Null \<Rightarrow> Some Null
      | Val s \<Rightarrow> if s = [] then Some Null else map_option Val (cast_Date P s))"

text \<open>
  The store is the list of the collection's documents; a store that cannot be reached is
  not part of the model. Query filters: Mongoose casts a filter value through the path's
  setters; a \<open>null\<close> or \<open>undefined\<close> filter value matches the documents where the path is
  null or missing.
\<close>

datatype query =
    ByUsername "string js"
  | ByEmail "string js"
  | Or query query

fun matches :: "query \<Rightarrow> user \<Rightarrow> bool" where
  "matches (ByUsername v) u =
     (case set_username v of Val s \<Rightarrow> username u = s | _ \<Rightarrow> False)"
| "matches (ByEmail v) u =
     (case set_email v of Val s \<Rightarrow> email u = Val s | _ \<Rightarrow> email u = Null \<or> email u = Undefined)"
| "matches (Or p q) u = (matches p u \<or> matches q u)"

definition findOne :: "query \<Rightarrow> store \<Rightarrow> user option" where
  "findOne q db = find (matches q) db"

definition findById :: "objectid \<Rightarrow> store \<Rightarrow> user option" where
  "findById i db = find (\<lambda>u. uid u = i) db"

text \<open>
  The \<open>required\<close> validator of a String path fails on \<open>undefined\<close>, \<open>null\<close> and the empty
  string. Document validation names every failing path.
\<close>

definition invalid_paths_create :: "string js \<Rightarrow> string js \<Rightarrow> string js \<Rightarrow> string list" where
  "invalid_paths_create un pw em =
     (if truthy un then [] else [''username'']) @
     (case pw of Val p \<Rightarrow> if p = [] \<or> length p < 6 then [''password''] else []
               | _ \<Rightarrow> [''password'']) @
     (if truthy em then [] else [''email''])"

text \<open>
  \<open>User.create(fields)\<close>: setters and casts, validation (a path that failed to cast is
  invalid), the pre-save hook \<open>hashPassword\<close> (\<open>salt\<close> is what \<open>bcrypt.genSalt(10)\<close> drew),
  then the insert, which the unique indexes on \<open>username\<close> and \<open>email\<close> can refuse.
\<close>

definition hashPassword :: "platform \<Rightarrow> string \<Rightarrow> string \<Rightarrow> string" where
  "hashPassword P salt pw = bcrypt_hash P pw salt"

definition User_create ::
  "platform \<Rightarrow> store \<Rightarrow> req_body \<Rightarrow> string \<Rightarrow> objectid \<Rightarrow> date \<Rightarrow> exn + (user \<times> store)" where
  "User_create P db b salt newid now =
     (let un = set_username (b_username b);
          em = set_email (b_email b);
          d = cast_date P (b_dob b);
          bad = invalid_paths_create un (b_password b) em @
                (if d = None then [''dob''] else [])
      in if bad \<noteq> [] then Inl (ValidationError bad)
         else (case (un, b_password b, d) of
                 (Val n, Val pw, Some dv) \<Rightarrow>
                   (let u = \<lparr> uid = newid, username = n,
                              password = Val (hashPassword P salt pw),
                              email = em, phone = set_phone (b_phone b),
                              dob = dv,
                              createdAt = now, updatedAt = now \<rparr>
                    in if list_ex (\<lambda>v. uid v = newid \<or> username v = n \<or> email v = em) db
                       then Inl DuplicateKey
                       else Inr (u, db @ [u]))
               | _ \<Rightarrow> Inl (ValidationError bad)))"

text \<open>
  \<open>doc.save()\<close> on a loaded document \<open>doc0\<close> that a handler changed into \<open>doc\<close>, with
  the paths whose assignment failed to cast: validation fails on a required path that is
  empty and on a path that failed to cast; \<open>hashPassword\<close> returns at once since
  \<open>password\<close> is not modified; the document must still exist; with no modified path
  nothing is written; otherwise the modified paths and \<open>updatedAt\<close> are set on the stored
  document, unless the unique index on \<open>email\<close> refuses.
\<close>

definition invalid_paths_save :: "user \<Rightarrow> string list" where
  "invalid_paths_save d =
     (if username d = [] then [''username''] else []) @
     (if truthy (password d) then [] else [''password'']) @
     (if truthy (email d) then [] else [''email''])"

definition set_modified :: "user \<Rightarrow> user \<Rightarrow> date \<Rightarrow> user \<Rightarrow> user" where
  "set_modified doc0 doc now s =
     s\<lparr> email := (if email doc \<noteq> email doc0 then email doc else email s),
        phone := (if phone doc \<noteq> phone doc0 then phone doc else phone s),
        dob := (if dob doc \<noteq> dob doc0 then dob doc else dob s),
        updatedAt := now \<rparr>"

definition User_save ::
  "store \<Rightarrow> user \<Rightarrow> user \<Rightarrow> string list \<Rightarrow> date \<Rightarrow> exn + (user \<times> store)" where
  "User_save db doc0 doc cast_errors now =
     (let bad = invalid_paths_save doc @ cast_errors
      in if bad \<noteq> [] then Inl (ValidationError bad)
         else if findById (uid doc) db = None then Inl DocumentNotFound
         else if doc = doc0 then Inr (doc, db)
         else if email doc \<noteq> email doc0 \<and>
                 list_ex (\<lambda>v. uid v \<noteq> uid doc \<and> email v = email doc) db
              then Inl DuplicateKey
         else Inr (doc\<lparr> updatedAt := now \<rparr>,
                   map (\<lambda>s. if uid s = uid doc then set_modified doc0 doc now s else s) db))"

section \<open>Request validation\<close>

text \<open>
  The \<open>express-validator\<close> chains. A chain maps the member's value to the value written
  back to \<open>req.body\<close> and the errors it adds. Standard validators and sanitizers read the
  value as a string (\<open>null\<close> and \<open>undefined\<close> as the empty string).
\<close>

definition to_string :: "string js \<Rightarrow> string" where
  "to_string v = (case v of Val s \<Rightarrow> s | _ \<Rightarrow> [])"

definition opt_member :: "string \<Rightarrow> json js \<Rightarrow> (string \<times> json) list" where
  "opt_member k v = (case v of Undefined \<Rightarrow> [] | Null \<Rightarrow> [(k, JNull)] | Val j \<Rightarrow> [(k, j)])"

definition str_member :: "string \<Rightarrow> string js \<Rightarrow> (string \<times> json) list" where
  "str_member k v = opt_member k (map_js JStr v)"

definition field_error :: "string \<Rightarrow> json js \<Rightarrow> string \<Rightarrow> json" where
  "field_error path v msg =
     JObj ([(''type'', JStr ''field'')] @ opt_member ''value'' v @
           [(''msg'', JStr msg), (''path'', JStr path), (''location'', JStr ''body'')])"

text \<open>
  A chain is a list of sanitizers and validators run in order on the member's value. With
  \<open>optional({ values: 'falsy' })\<close> the value is tested before each of them, and a falsy
  value (also one a sanitizer has just made empty) skips what remains. A sanitizer's
  result is written back; a failing validator adds its error and the chain goes on.
\<close>

datatype chain_item = Sanitizer "string \<Rightarrow> string" | Validator "string \<Rightarrow> bool" string

fun run_chain :: "bool \<Rightarrow> string \<Rightarrow> chain_item list \<Rightarrow> string js \<Rightarrow> string js \<times> json list" where
  "run_chain optional path [] v = (v, [])"
| "run_chain optional path (Sanitizer f # items) v =
     (if optional \<and> \<not> truthy v then (v, [])
      else run_chain optional path items (Val (f (to_string v))))"
| "run_chain optional path (Validator ok msg # items) v =
     (if optional \<and> \<not> truthy v then (v, [])
      else (case run_chain optional path items v of
              (v', errs) \<Rightarrow>
                (v', (if ok (to_string v) then [] else [field_error path (map_js JStr v) msg])
                     @ errs)))"

definition check_email :: "bool \<Rightarrow> string js \<Rightarrow> string js \<times> json list" where
  "check_email optional =
     run_chain optional ''email''
       [Sanitizer trim, Validator EMAIL_REGEX ''Email must be a valid email address'']"

definition check_phone :: "string js \<Rightarrow> string js \<times> json list" where
  "check_phone =
     run_chain True ''phone''
       [Sanitizer trim, Validator PHONE_REGEX ''Phone must be a valid phone number'']"

definition check_dob :: "platform \<Rightarrow> string js \<Rightarrow> string js \<times> json list" where
  "check_dob P =
     run_chain True ''dob''
       [Validator (isISO8601 P) ''Date of birth must be a valid ISO-8601 date'']"

definition body_json :: "req_body \<Rightarrow> json" where
  "body_json b =
     JObj (str_member ''username'' (b_username b) @ str_member ''password'' (b_password b) @
           str_member ''email'' (b_email b) @ str_member ''phone'' (b_phone b) @
           str_member ''dob'' (b_dob b))"

text \<open>\<open>handleValidation\<close>: the 400 response that carries every error.\<close>

definition validation_failed :: "json list \<Rightarrow> response" where
  "validation_failed errs =
     \<lparr> status = 400,
       body = JObj [(''message'', JStr ''Validation failed''), (''errors'', JArr errs)] \<rparr>"

text \<open>The chains of \<open>POST /register\<close>, \<open>POST /login\<close> and \<open>PUT /api/profile\<close>, in their order.\<close>

definition validate_register :: "platform \<Rightarrow> req_body \<Rightarrow> req_body \<times> json list" where
  "validate_register P b =
     (let (un, e1) = run_chain False ''username''
                       [Sanitizer trim, Validator (\<lambda>s. s \<noteq> []) ''Username is required'']
                       (b_username b);
          (pw, e2) = run_chain False ''password''
                       [Validator (\<lambda>s. 6 \<le> length s) ''Password must be at least 6 characters'']
                       (b_password b);
          (em, e3) = check_email False (b_email b);
          (ph, e4) = check_phone (b_phone b);
          (d, e5) = check_dob P (b_dob b)
      in (\<lparr> b_username = un, b_password = pw, b_email = em, b_phone = ph, b_dob = d \<rparr>,
          e1 @ e2 @ e3 @ e4 @ e5))"

definition validate_login :: "req_body \<Rightarrow> req_body \<times> json list" where
  "validate_login b =
     (let (pw, e1) = run_chain False ''password''
                       [Validator (\<lambda>s. s \<noteq> []) ''Password is required''] (b_password b);
          (un, e2) = run_chain True ''username''
                       [Sanitizer trim, Validator (\<lambda>s. s \<noteq> []) ''Username cannot be empty'']
                       (b_username b);
          (em, e3) = check_email True (b_email b);
          b' = b\<lparr> b_username := un, b_password := pw, b_email := em \<rparr>;
          e4 = (if \<not> truthy un \<and> \<not> truthy em
                then [field_error [] (Val (body_json b')) ''Username or email is required'']
                else [])
      in (b', e1 @ e2 @ e3 @ e4))"

definition validate_update :: "platform \<Rightarrow> req_body \<Rightarrow> req_body \<times> json list" where
  "validate_update P b =
     (let (em, e1) = check_email True (b_email b);
          (ph, e2) = check_phone (b_phone b);
          (d, e3) = check_dob P (b_dob b)
      in (b\<lparr> b_email := em, b_phone := ph, b_dob := d \<rparr>, e1 @ e2 @ e3))"

section \<open>Token issuance\<close>

definition createToken :: "platform \<Rightarrow> env \<Rightarrow> objectid \<Rightarrow> exn + string" where
  "createToken P E userId =
     (case JWT_SECRET E of
        None \<Rightarrow> Inl JwtSecretNotDefined
      | Some secret \<Rightarrow>
          if secret = [] then Inl JwtSecretNotDefined
          else jwt_sign P userId secret
                 (case JWT_EXPIRES_IN E of None \<Rightarrow> ''7d'' | Some e \<Rightarrow> if e = [] then ''7d'' else e))"

definition auth_summary :: "user \<Rightarrow> string \<Rightarrow> json" where
  "auth_summary u tok =
     JObj ([(''id'', JId (uid u)), (''username'', JStr (username u))] @
           str_member ''email'' (email u) @ [(''token'', JStr tok)])"

section \<open>Registration\<close>

text \<open>
  The handler awaits \<open>User.findOne\<close> and then \<open>User.create\<close>; other requests can write
  between the two, so the store each of them sees is an argument of its own
  (\<open>db_check\<close>, \<open>db_create\<close>; the same store when nothing interleaves). The result is the
  response and the store after the request. \<open>register_try\<close> is the body of the
  \<open>try\<close> block, \<open>register_handler\<close> adds the \<open>catch\<close>.
\<close>

definition already_exists :: response where
  "already_exists =
     \<lparr> status = 400,
       body = JObj [(''message'', JStr ''User with that username or email already exists''),
                    (''errors'', JArr [])] \<rparr>"

definition register_try ::
  "platform \<Rightarrow> env \<Rightarrow> store \<Rightarrow> store \<Rightarrow> string \<Rightarrow> objectid \<Rightarrow> date \<Rightarrow> req_body
     \<Rightarrow> (exn + response) \<times> store" where
  "register_try P E db_check db_create salt newid now b =
     (case findOne (Or (ByEmail (b_email b)) (ByUsername (b_username b))) db_check of
        Some existingUser \<Rightarrow> (Inr already_exists, db_create)
      | None \<Rightarrow>
          (case User_create P db_create b salt newid now of
             Inl e \<Rightarrow> (Inl e, db_create)
           | Inr (u, db') \<Rightarrow>
               (case createToken P E (uid u) of
                  Inl e \<Rightarrow> (Inl e, db')
                | Inr tok \<Rightarrow> (Inr \<lparr> status = 201, body = auth_summary u tok \<rparr>, db'))))"

definition register_handler ::
  "platform \<Rightarrow> env \<Rightarrow> store \<Rightarrow> store \<Rightarrow> string \<Rightarrow> objectid \<Rightarrow> date \<Rightarrow> req_body
     \<Rightarrow> response \<times> store" where
  "register_handler P E db_check db_create salt newid now b =
     (case register_try P E db_check db_create salt newid now b of
        (Inl e, db') \<Rightarrow> (json_msg 500 ''Server error'', db')
      | (Inr r, db') \<Rightarrow> (r, db'))"

definition register ::
  "platform \<Rightarrow> env \<Rightarrow> store \<Rightarrow> store \<Rightarrow> string \<Rightarrow> objectid \<Rightarrow> date \<Rightarrow> req_body
     \<Rightarrow> response \<times> store" where
  "register P E db_check db_create salt newid now b =
     (case validate_register P b of
        (b', errs) \<Rightarrow>
          if errs \<noteq> [] then (validation_failed errs, db_create)
          else register_handler P E db_check db_create salt newid now b')"

section \<open>Login\<close>

text \<open>
  The login handler returns its response together with the store and hashing calls it
  awaited, in order.
\<close>

datatype call = FindOne query | BcryptCompare "string js" "string js"

definition invalid_credentials :: response where
  "invalid_credentials = json_msg 401 ''Invalid credentials''"

definition login_query :: "req_body \<Rightarrow> query" where
  "login_query b = (if truthy (b_username b) then ByUsername (b_username b) else ByEmail (b_email b))"

definition login_try ::
  "platform \<Rightarrow> env \<Rightarrow> store \<Rightarrow> req_body \<Rightarrow> (exn + response) \<times> call list" where
  "login_try P E db b =
     (let q = login_query b
      in case findOne q db of
           None \<Rightarrow> (Inr invalid_credentials, [FindOne q])
         | Some u \<Rightarrow>
             (let calls = [FindOne q, BcryptCompare (b_password b) (password u)]
              in case (b_password b, password u) of
                   (Val p, Val h) \<Rightarrow>
                     if \<not> bcrypt_compare P p h then (Inr invalid_credentials, calls)
                     else (case createToken P E (uid u) of
                             Inl e \<Rightarrow> (Inl e, calls)
                           | Inr tok \<Rightarrow> (Inr \<lparr> status = 200, body = auth_summary u tok \<rparr>, calls))
                 | _ \<Rightarrow> (Inl BcryptIllegalArguments, calls)))"

definition login_handler ::
  "platform \<Rightarrow> env \<Rightarrow> store \<Rightarrow> req_body \<Rightarrow> response \<times> call list" where
  "login_handler P E db b =
     (case login_try P E db b of
        (Inl e, calls) \<Rightarrow> (json_msg 500 ''Server error'', calls)
      | (Inr r, calls) \<Rightarrow> (r, calls))"

definition login :: "platform \<Rightarrow> env \<Rightarrow> store \<Rightarrow> req_body \<Rightarrow> response \<times> call list" where
  "login P E db b =
     (case validate_login b of
        (b', errs) \<Rightarrow>
          if errs \<noteq> [] then (validation_failed errs, [])
          else login_handler P E db b')"

section \<open>The authorization gates\<close>

text \<open>
  \<open>requireAuth\<close> (\<open>routes/profile.js\<close>). The argument is the \<open>Authorization\<close> header, if
  any (\<open>header_of\<close> is \<open>req.headers.authorization || ''\<close>). The result is the response
  of a rejection, or the account attached to the request when \<open>next()\<close> is called.
  \<open>requireAuth_try\<close> is the body of the \<open>try\<close> block.
\<close>

definition header_of :: "string option \<Rightarrow> string" where
  "header_of authorization = (case authorization of None \<Rightarrow> [] | Some h \<Rightarrow> h)"

definition bearer_token :: "string \<Rightarrow> string js" where
  "bearer_token authHeader = at_index (split_on CHR '' '' authHeader) 1"

definition jwt_verify_js :: "platform \<Rightarrow> string js \<Rightarrow> string \<Rightarrow> exn + objectid option" where
  "jwt_verify_js P token secret =
     (case token of Val t \<Rightarrow> if t = [] then Inl JwtMustBeProvided else jwt_verify P t secret
                  | _ \<Rightarrow> Inl JwtMustBeProvided)"

definition requireAuth_try ::
  "platform \<Rightarrow> env \<Rightarrow> store \<Rightarrow> string js \<Rightarrow> exn + (response + user)" where
  "requireAuth_try P E db token =
     (case JWT_SECRET E of
        None \<Rightarrow> Inl JwtSecretNotDefined
      | Some secret \<Rightarrow>
          if secret = [] then Inl JwtSecretNotDefined
          else (case jwt_verify_js P token secret of
                  Inl e \<Rightarrow> Inl e
                | Inr decoded_id \<Rightarrow>
                    (case (case decoded_id of None \<Rightarrow> None | Some i \<Rightarrow> findById i db) of
                       None \<Rightarrow> Inr (Inl (json_msg 401 ''Not authorized''))
                     | Some u \<Rightarrow> Inr (Inr u))))"

definition requireAuth ::
  "platform \<Rightarrow> env \<Rightarrow> store \<Rightarrow> string option \<Rightarrow> response + user" where
  "requireAuth P E db authorization =
     (let authHeader = header_of authorization
      in if \<not> startsWith authHeader ''Bearer ''
         then Inl (json_msg 401 ''Not authorized, token missing'')
         else (case requireAuth_try P E db (bearer_token authHeader) of
                 Inl e \<Rightarrow> Inl (json_msg 401 ''Not authorized, token invalid'')
               | Inr r \<Rightarrow> r))"

text \<open>
  \<open>protect\<close> (\<open>middleware/authMiddleware.js\<close>) attaches the account without its
  \<open>password\<close> (\<open>select('-password')\<close>), or \<open>null\<close> when the id does not resolve, and calls
  \<open>next()\<close> in both cases.
\<close>

definition select_minus_password :: "user \<Rightarrow> user" where
  "select_minus_password u = u\<lparr> password := Undefined \<rparr>"

definition protect_try ::
  "platform \<Rightarrow> env \<Rightarrow> store \<Rightarrow> string js \<Rightarrow> exn + user option" where
  "protect_try P E db token =
     (case JWT_SECRET E of
        None \<Rightarrow> Inl JwtSecretNotDefined
      | Some secret \<Rightarrow>
          if secret = [] then Inl JwtSecretNotDefined
          else (case jwt_verify_js P token secret of
                  Inl e \<Rightarrow> Inl e
                | Inr decoded_id \<Rightarrow>
                    Inr (map_option select_minus_password
                          (case decoded_id of None \<Rightarrow> None | Some i \<Rightarrow> findById i db))))"

definition protect ::
  "platform \<Rightarrow> env \<Rightarrow> store \<Rightarrow> string option \<Rightarrow> response + user option" where
  "protect P E db authorization =
     (case authorization of
        None \<Rightarrow> Inl (json_msg 401 ''Not authorized, no token provided'')
      | Some authHeader \<Rightarrow>
          if authHeader = [] \<or> \<not> startsWith authHeader ''Bearer ''
          then Inl (json_msg 401 ''Not authorized, no token provided'')
          else (case protect_try P E db (bearer_token authHeader) of
                  Inl e \<Rightarrow> Inl (json_msg 401 ''Not authorized, token failed'')
                | Inr u \<Rightarrow> Inr u))"

section \<open>Profile\<close>

text \<open>The profile view of \<open>GET\<close> and \<open>PUT /api/profile\<close>.\<close>

definition profile_view :: "user \<Rightarrow> json" where
  "profile_view u =
     JObj ([(''id'', JId (uid u)), (''username'', JStr (username u))] @
           str_member ''email'' (email u) @
           [(''phone'', if truthy (phone u) then JStr (to_string (phone u)) else JStr []),
            (''dob'', case dob u of Val d \<Rightarrow> JDate d | _ \<Rightarrow> JNull),
            (''createdAt'', JDate (createdAt u)),
            (''updatedAt'', JDate (updatedAt u))])"

definition get_profile :: "platform \<Rightarrow> env \<Rightarrow> store \<Rightarrow> string option \<Rightarrow> response" where
  "get_profile P E db authorization =
     (case requireAuth P E db authorization of
        Inl rejection \<Rightarrow> rejection
      | Inr u \<Rightarrow> \<lparr> status = 200, body = profile_view u \<rparr>)"

text \<open>
  The assignments of the \<open>PUT\<close> handler: a member that is not \<open>undefined\<close> is assigned
  (through the path's setters); \<open>dob\<close> becomes \<open>new Date(dob)\<close> when truthy and \<open>null\<close>
  otherwise. Assigning an Invalid Date fails to cast: the path keeps its value and is
  invalid. The result is the document and the paths that failed to cast.
\<close>

definition assign_fields :: "platform \<Rightarrow> user \<Rightarrow> req_body \<Rightarrow> user \<times> string list" where
  "assign_fields P u b =
     (let d = (if b_dob b = Undefined then Some (dob u)
               else if truthy (b_dob b) then map_option Val (new_Date P (to_string (b_dob b)))
               else Some Null)
      in (u\<lparr> email := (if b_email b \<noteq> Undefined then set_email (b_email b) else email u),
             phone := (if b_phone b \<noteq> Undefined then set_phone (b_phone b) else phone u),
             dob := (case d of None \<Rightarrow> dob u | Some v \<Rightarrow> v) \<rparr>,
          (case d of None \<Rightarrow> [''dob''] | Some v \<Rightarrow> [])))"

definition update_handler ::
  "platform \<Rightarrow> store \<Rightarrow> user \<Rightarrow> date \<Rightarrow> req_body \<Rightarrow> response \<times> store" where
  "update_handler P db u now b =
     (case assign_fields P u b of
        (doc, cast_errors) \<Rightarrow>
          (case User_save db u doc cast_errors now of
             Inl e \<Rightarrow> (json_msg 500 ''Server error'', db)
           | Inr (saved, db') \<Rightarrow> (\<lparr> status = 200, body = profile_view saved \<rparr>, db')))"

definition update_profile ::
  "platform \<Rightarrow> env \<Rightarrow> store \<Rightarrow> string option \<Rightarrow> date \<Rightarrow> req_body \<Rightarrow> response \<times> store" where
  "update_profile P E db authorization now b =
     (case requireAuth P E db authorization of
        Inl rejection \<Rightarrow> (rejection, db)
      | Inr u \<Rightarrow>
          (case validate_update P b of
             (b', errs) \<Rightarrow>
               if errs \<noteq> [] then (validation_failed errs, db)
               else update_handler P db u now b'))"

text \<open>
  \<open>getProfile\<close> (\<open>controllers/userController.js\<close>) serializes the attached document as it
  is: the members of a document are its id, the paths that are set, the timestamps and the
  version key.
\<close>

definition toJSON :: "user \<Rightarrow> json" where
  "toJSON u =
     JObj ([(''_id'', JId (uid u)), (''username'', JStr (username u))] @
           str_member ''password'' (password u) @
           str_member ''email'' (email u) @
           str_member ''phone'' (phone u) @
           opt_member ''dob'' (map_js JDate (dob u)) @
           [(''createdAt'', JDate (createdAt u)), (''updatedAt'', JDate (updatedAt u)),
            (''__v'', JNum 0)])"

definition getProfile :: "user option \<Rightarrow> response" where
  "getProfile req_user =
     (case req_user of
        None \<Rightarrow> json_msg 401 ''Not authorized''
      | Some u \<Rightarrow> \<lparr> status = 200, body = toJSON u \<rparr>)"

definition controller_get_profile ::
  "platform \<Rightarrow> env \<Rightarrow> store \<Rightarrow> string option \<Rightarrow> response" where
  "controller_get_profile P E db authorization =
     (case protect P E db authorization of
        Inl rejection \<Rightarrow> rejection
      | Inr req_user \<Rightarrow> getProfile req_user)"

section \<open>Startup\<close>




section \<open>A sample deployment\<close>

text \<open>
  A small instance of the libraries, the configuration and the store, on which the
  handlers are evaluated: hashes are the salt followed by the plaintext, a token is the
  signing secret, a dot and the account id in unary, the token \<open>expired\<close> is one whose
  lifetime is over, and a date string that starts with \<open>9\<close> does not parse.
\<close>

definition sample_verify :: "string \<Rightarrow> string \<Rightarrow> exn + objectid option" where
  "sample_verify t secret =
     (if t = ''expired'' then Inl JwtExpired
      else if CHR ''.'' \<notin> set t then Inl JwtMalformed
      else if \<not> startsWith t (secret @ ''.'') then Inl JwtInvalidSignature
      else Inr (Some (length (drop (length secret + 1) t))))"

definition sample_platform :: platform where
  "sample_platform =
     \<lparr> bcrypt_hash = (\<lambda>pw salt. salt @ pw),
       bcrypt_compare = (\<lambda>pw h. drop (length h - length pw) h = pw),
       jwt_sign = (\<lambda>i secret lifetime. Inr (secret @ ''.'' @ replicate i CHR ''i'')),
       jwt_verify = sample_verify,
       isISO8601 = (\<lambda>s. length s = 10),
       new_Date = (\<lambda>s. if take 1 s = ''9'' then None else Some (int (length s))),
       cast_Date = (\<lambda>s. if take 1 s = ''9'' then None else Some (int (length s))) \<rparr>"

definition sample_env :: env where
  "sample_env =
     \<lparr> JWT_SECRET = Some ''k'', JWT_EXPIRES_IN = None,
       MONGO_URI = Some ''mongodb://localhost/app'', PORT = None \<rparr>"

definition alice :: user where
  "alice =
     \<lparr> uid = 1, username = ''alice'', password = Val ''$salt$abcdef'',
       email = Val ''a@x.com'', phone = Undefined, dob = Undefined,
       createdAt = 0, updatedAt = 0 \<rparr>"

definition sample_store :: store where
  "sample_store = [alice]"

definition empty_body :: req_body where
  "empty_body =
     \<lparr> b_username = Undefined, b_password = Undefined, b_email = Undefined,
       b_phone = Undefined, b_dob = Undefined \<rparr>"

section \<open>Stores that differ in the stored hashes\<close>

text \<open>
  \<open>with_passwords g db\<close> is the store \<open>db\<close> with the \<open>password\<close> field of every account
  replaced by what \<open>g\<close> gives; \<open>with_bcrypt h c P\<close> is \<open>P\<close> with another hash and another
  compare function. A response that is the same on both sides holds nothing of the
  stored hashes.
\<close>

definition with_passwords :: "(user \<Rightarrow> string js) \<Rightarrow> store \<Rightarrow> store" where
  "with_passwords g db = map (\<lambda>u. u\<lparr> password := g u \<rparr>) db"

definition with_bcrypt ::
  "(string \<Rightarrow> string \<Rightarrow> string) \<Rightarrow> (string \<Rightarrow> string \<Rightarrow> bool) \<Rightarrow> platform \<Rightarrow> platform" where
  "with_bcrypt h c P = P\<lparr> bcrypt_hash := h, bcrypt_compare := c \<rparr>"

section \<open>Unfolding rules\<close>

lemmas sample_defs =
  sample_platform_def sample_verify_def sample_env_def sample_store_def alice_def
  empty_body_def

lemmas string_defs = trim_def is_space_def toLowerCase_def lower_char_def

lemmas regex_defs = EMAIL_REGEX_def email_class_def PHONE_REGEX_def phone_class_def is_digit_def

lemmas store_defs = findOne_def findById_def set_username_def set_email_def set_phone_def

lemmas gate_defs =
  requireAuth_def requireAuth_try_def protect_def protect_try_def header_of_def
  startsWith_def bearer_token_def at_index_def jwt_verify_js_def findById_def unset_def

lemmas validate_login_defs = validate_login_def check_email_def to_string_def Let_def

lemmas validate_update_defs =
  validate_update_def check_phone_def check_dob_def check_email_def to_string_def Let_def

lemmas validate_register_defs =
  validate_register_def check_phone_def check_dob_def check_email_def to_string_def Let_def

lemmas create_defs =
  User_create_def invalid_paths_create_def hashPassword_def cast_date_def

lemma sample_gate:
  "requireAuth sample_platform sample_env sample_store (Some ''Bearer k.i'') = Inr alice"
  by (simp add: gate_defs sample_defs)

section \<open>Member names of the responses\<close>

lemma keys_opt_member: "set (map fst (opt_member k v)) \<subseteq> {k}"
  by (cases v) (simp_all add: opt_member_def)

lemma nokey_opt_member: "k \<noteq> k' \<Longrightarrow> k' \<notin> fst ` set (opt_member k v)"
  using keys_opt_member [of k v] by auto

lemma nokey_str_member: "k \<noteq> k' \<Longrightarrow> k' \<notin> fst ` set (str_member k v)"
  unfolding str_member_def by (rule nokey_opt_member)

lemma members_json_msg: "members (body (json_msg c m)) = [''message'']"
  by (simp add: json_msg_def)

lemma members_validation_failed:
  "members (body (validation_failed errs)) = [''message'', ''errors'']"
  by (simp add: validation_failed_def)

lemma members_already_exists: "members (body already_exists) = [''message'', ''errors'']"
  by (simp add: already_exists_def)

lemma nopw_auth_summary: "''password'' \<notin> set (members (auth_summary u tok))"
  by (simp add: auth_summary_def nokey_str_member)

lemma nopw_profile_view: "''password'' \<notin> set (members (profile_view u))"
  by (simp add: profile_view_def nokey_str_member)

lemma nopw_toJSON: "password u = Undefined \<Longrightarrow> ''password'' \<notin> set (members (toJSON u))"
  by (simp add: toJSON_def nokey_str_member nokey_opt_member)
     (simp add: str_member_def opt_member_def)

lemma nopw_register:
  "''password'' \<notin> set (members (body (fst (register P E db1 db2 salt i now b))))"
  by (auto simp: register_def register_handler_def register_try_def members_json_msg
        members_validation_failed members_already_exists nopw_auth_summary
      split: prod.splits sum.splits option.splits)

lemma nopw_login: "''password'' \<notin> set (members (body (fst (login P E db b))))"
  by (auto simp: login_def login_handler_def login_try_def Let_def invalid_credentials_def
        members_json_msg members_validation_failed nopw_auth_summary
      split: prod.splits sum.splits option.splits js.splits if_splits)

lemma requireAuth_Inl_members:
  "requireAuth P E db h = Inl r \<Longrightarrow> members (body r) = [''message'']"
  by (auto simp: requireAuth_def requireAuth_try_def Let_def members_json_msg
      split: if_splits sum.splits option.splits)

lemma nopw_get_profile: "''password'' \<notin> set (members (body (get_profile P E db h)))"
  by (auto simp: get_profile_def nopw_profile_view dest: requireAuth_Inl_members
      split: sum.splits)

lemma nopw_update_profile:
  "''password'' \<notin> set (members (body (fst (update_profile P E db h now b))))"
  by (auto simp: update_profile_def update_handler_def nopw_profile_view members_json_msg
        members_validation_failed
      dest: requireAuth_Inl_members split: sum.splits prod.splits)

lemma protect_Inl_members: "protect P E db h = Inl r \<Longrightarrow> members (body r) = [''message'']"
  by (auto simp: protect_def members_json_msg split: option.splits if_splits sum.splits)

lemma protect_Inr_deselected: "protect P E db h = Inr (Some u) \<Longrightarrow> password u = Undefined"
  by (auto simp: protect_def protect_try_def select_minus_password_def
      split: option.splits if_splits sum.splits)

lemma nopw_controller:
  "''password'' \<notin> set (members (body (controller_get_profile P E db h)))"
  by (auto simp: controller_get_profile_def getProfile_def members_json_msg
      dest: protect_Inl_members protect_Inr_deselected nopw_toJSON
      split: sum.splits option.splits)

section \<open>Responses do not depend on the stored hashes\<close>

lemma matches_password: "matches q (u\<lparr> password := x \<rparr>) = matches q u"
  by (induction q) (auto split: js.splits)

lemma find_with_passwords:
  "(\<And>u x. Q (u\<lparr> password := x \<rparr>) = Q u) \<Longrightarrow>
   find Q (with_passwords g db) = map_option (\<lambda>u. u\<lparr> password := g u \<rparr>) (find Q db)"
  by (induction db) (auto simp: with_passwords_def)

lemma findOne_with_passwords:
  "findOne q (with_passwords g db) = map_option (\<lambda>u. u\<lparr> password := g u \<rparr>) (findOne q db)"
  unfolding findOne_def by (rule find_with_passwords) (rule matches_password)

lemma findById_with_passwords:
  "findById i (with_passwords g db) = map_option (\<lambda>u. u\<lparr> password := g u \<rparr>) (findById i db)"
  unfolding findById_def by (rule find_with_passwords) simp

lemma list_ex_with_passwords:
  "(\<And>u x. Q (u\<lparr> password := x \<rparr>) = Q u) \<Longrightarrow> list_ex Q (with_passwords g db) = list_ex Q db"
  by (induction db) (auto simp: with_passwords_def)

lemma createToken_with_bcrypt: "createToken (with_bcrypt hf cf P) E i = createToken P E i"
  by (simp add: createToken_def with_bcrypt_def split: option.splits)

lemma validate_register_with_bcrypt:
  "validate_register (with_bcrypt hf cf P) b = validate_register P b"
  by (simp add: validate_register_def check_dob_def with_bcrypt_def)

lemma validate_update_with_bcrypt:
  "validate_update (with_bcrypt hf cf P) b = validate_update P b"
  by (simp add: validate_update_def check_dob_def with_bcrypt_def)

lemma auth_summary_password: "auth_summary (u\<lparr> password := x \<rparr>) tok = auth_summary u tok"
  by (simp add: auth_summary_def)

lemma profile_view_password: "profile_view (u\<lparr> password := x \<rparr>) = profile_view u"
  by (simp add: profile_view_def)

lemma User_create_hash_free:
  "map_sum (\<lambda>e. ()) (\<lambda>(u, s). (uid u, username u, email u))
      (User_create (with_bcrypt hf cf P) (with_passwords g db) b salt' i now)
   = map_sum (\<lambda>e. ()) (\<lambda>(u, s). (uid u, username u, email u))
      (User_create P db b salt i now)"
  by (auto simp: User_create_def Let_def cast_date_def with_bcrypt_def
        list_ex_with_passwords [where g = g and db = db]
      split: js.splits option.splits)

lemma auth_summary_cong:
  "uid u = uid v \<Longrightarrow> username u = username v \<Longrightarrow> email u = email v \<Longrightarrow>
   auth_summary u tok = auth_summary v tok"
  by (simp add: auth_summary_def)

lemma register_hash_free:
  "fst (register (with_bcrypt hf cf P) E (with_passwords g db1) (with_passwords g' db2)
          salt' i now b)
   = fst (register P E db1 db2 salt i now b)"
proof -
  obtain b' errs where v: "validate_register P b = (b', errs)"
    by (cases "validate_register P b")
  let ?P = "with_bcrypt hf cf P"
  let ?q = "Or (ByEmail (b_email b')) (ByUsername (b_username b'))"
  have "fst (register_handler ?P E (with_passwords g db1) (with_passwords g' db2) salt' i now b')
      = fst (register_handler P E db1 db2 salt i now b')"
  proof (cases "findOne ?q db1")
    case (Some u)
    then show ?thesis
      by (simp add: register_handler_def register_try_def findOne_with_passwords)
  next
    case None
    show ?thesis
    proof (cases "User_create P db2 b' salt i now")
      case (Inl e)
      with User_create_hash_free [of hf cf P g' db2 b' salt' i now salt]
      obtain e' where "User_create ?P (with_passwords g' db2) b' salt' i now = Inl e'"
        by (cases "User_create ?P (with_passwords g' db2) b' salt' i now") auto
      with Inl None show ?thesis
        by (simp add: register_handler_def register_try_def findOne_with_passwords)
    next
      case (Inr r)
      obtain u s where r: "r = (u, s)" by (cases r)
      with Inr User_create_hash_free [of hf cf P g' db2 b' salt' i now salt]
      obtain u' s' where c: "User_create ?P (with_passwords g' db2) b' salt' i now = Inr (u', s')"
        and eq: "uid u' = uid u" "username u' = username u" "email u' = email u"
        by (cases "User_create ?P (with_passwords g' db2) b' salt' i now") auto
      from Inr r c eq None auth_summary_cong [OF eq] show ?thesis
        by (simp add: register_handler_def register_try_def findOne_with_passwords
              createToken_with_bcrypt split: sum.splits)
    qed
  qed
  with v show ?thesis
    by (simp add: register_def validate_register_with_bcrypt)
qed

lemma login_handler_cases:
  "fst (login_handler P E db b) = invalid_credentials \<or>
   fst (login_handler P E db b) = json_msg 500 ''Server error'' \<or>
   (\<exists>u tok. findOne (login_query b) db = Some u \<and> createToken P E (uid u) = Inr tok \<and>
      fst (login_handler P E db b) = \<lparr> status = 200, body = auth_summary u tok \<rparr>)"
  by (auto simp: login_handler_def login_try_def Let_def
      split: option.splits js.splits sum.splits)

lemma login_hash_free:
  assumes "status (fst (login (with_bcrypt hf cf P) E (with_passwords g db) b))
           = status (fst (login P E db b))"
  shows "fst (login (with_bcrypt hf cf P) E (with_passwords g db) b) = fst (login P E db b)"
proof -
  obtain b' errs where v: "validate_login b = (b', errs)"
    by (cases "validate_login b")
  show ?thesis
  proof (cases "errs = []")
    case False
    with v show ?thesis by (simp add: login_def)
  next
    case True
    let ?P = "with_bcrypt hf cf P" and ?db = "with_passwords g db"
    from True v have l: "login ?P E ?db b = login_handler ?P E ?db b'"
      "login P E db b = login_handler P E db b'"
      by (simp_all add: login_def)
    from assms l have st: "status (fst (login_handler ?P E ?db b'))
                         = status (fst (login_handler P E db b'))"
      by simp
    from login_handler_cases [of ?P E ?db b'] login_handler_cases [of P E db b'] st
    have "fst (login_handler ?P E ?db b') = fst (login_handler P E db b')"
      by (auto simp: invalid_credentials_def json_msg_def findOne_with_passwords
            createToken_with_bcrypt auth_summary_password)
    with l show ?thesis by simp
  qed
qed

lemma jwt_verify_js_with_bcrypt:
  "jwt_verify_js (with_bcrypt hf cf P) t k = jwt_verify_js P t k"
  by (simp add: jwt_verify_js_def with_bcrypt_def split: js.splits)

lemma requireAuth_with_passwords:
  "requireAuth (with_bcrypt hf cf P) E (with_passwords g db) h
   = map_sum id (\<lambda>u. u\<lparr> password := g u \<rparr>) (requireAuth P E db h)"
  by (auto simp: requireAuth_def requireAuth_try_def Let_def jwt_verify_js_with_bcrypt
        findById_with_passwords
      split: option.splits sum.splits)

lemma get_profile_hash_free:
  "get_profile (with_bcrypt hf cf P) E (with_passwords g db) h = get_profile P E db h"
  by (cases "requireAuth P E db h")
     (simp_all add: get_profile_def requireAuth_with_passwords profile_view_password)

lemma select_after_replace:
  "map_option select_minus_password (map_option (\<lambda>u. u\<lparr> password := g u \<rparr>) x)
   = map_option select_minus_password x"
  by (cases x) (simp_all add: select_minus_password_def)

lemma protect_with_passwords:
  "protect (with_bcrypt hf cf P) E (with_passwords g db) h = protect P E db h"
  by (auto simp: protect_def protect_try_def jwt_verify_js_with_bcrypt findById_with_passwords
        select_after_replace
      split: option.splits sum.splits)

lemma controller_hash_free:
  "controller_get_profile (with_bcrypt hf cf P) E (with_passwords g db) h
   = controller_get_profile P E db h"
  by (simp add: controller_get_profile_def protect_with_passwords)

lemma assign_fields_password:
  "assign_fields (with_bcrypt hf cf P) (u\<lparr> password := x \<rparr>) b
   = (case assign_fields P u b of (doc, cast_errors) \<Rightarrow> (doc\<lparr> password := x \<rparr>, cast_errors))"
  by (cases "new_Date P (to_string (b_dob b))")
     (simp_all add: assign_fields_def Let_def with_bcrypt_def)

lemma assign_fields_keeps: "password (fst (assign_fields P u b)) = password u"
  by (simp add: assign_fields_def Let_def)

lemma replace_password_eq:
  "password doc = password u \<Longrightarrow> (doc\<lparr> password := x \<rparr> = u\<lparr> password := x \<rparr>) = (doc = u)"
  by (cases doc, cases u) auto

lemma update_handler_cases:
  "fst (update_handler P db u now b) = json_msg 500 ''Server error'' \<or>
   fst (update_handler P db u now b)
     = \<lparr> status = 200,
         body = profile_view ((fst (assign_fields P u b))
                  \<lparr> updatedAt := (if fst (assign_fields P u b) = u then updatedAt u else now) \<rparr>) \<rparr>"
  by (cases "assign_fields P u b")
     (auto simp: update_handler_def User_save_def Let_def split: sum.splits if_splits)

lemma update_hash_free:
  assumes "status (fst (update_profile (with_bcrypt hf cf P) E (with_passwords g db) h now b))
           = status (fst (update_profile P E db h now b))"
  shows "fst (update_profile (with_bcrypt hf cf P) E (with_passwords g db) h now b)
         = fst (update_profile P E db h now b)"
proof (cases "requireAuth P E db h")
  case (Inl r)
  then show ?thesis
    by (simp add: update_profile_def requireAuth_with_passwords)
next
  case (Inr u)
  let ?P = "with_bcrypt hf cf P" and ?db = "with_passwords g db"
  let ?u = "u\<lparr> password := g u \<rparr>"
  obtain b' errs where v: "validate_update P b = (b', errs)"
    by (cases "validate_update P b")
  show ?thesis
  proof (cases "errs = []")
    case False
    with Inr v show ?thesis
      by (simp add: update_profile_def requireAuth_with_passwords validate_update_with_bcrypt)
  next
    case True
    with Inr v have l: "update_profile ?P E ?db h now b = update_handler ?P ?db ?u now b'"
      "update_profile P E db h now b = update_handler P db u now b'"
      by (simp_all add: update_profile_def requireAuth_with_passwords
            validate_update_with_bcrypt)
    obtain doc ce where a: "assign_fields P u b' = (doc, ce)"
      by (cases "assign_fields P u b'")
    then have a': "assign_fields ?P ?u b' = (doc\<lparr> password := g u \<rparr>, ce)"
      by (simp add: assign_fields_password)
    from a assign_fields_keeps [of P u b'] have p: "password doc = password u"
      by simp
    from assms l have st: "status (fst (update_handler ?P ?db ?u now b'))
                         = status (fst (update_handler P db u now b'))"
      by simp
    from update_handler_cases [of ?P ?db ?u now b'] update_handler_cases [of P db u now b'] st
    have "fst (update_handler ?P ?db ?u now b') = fst (update_handler P db u now b')"
      by (auto simp: a a' json_msg_def replace_password_eq [OF p] profile_view_def)
    with l show ?thesis by simp
  qed
qed

text \<open>
  C1. The response of registration, login, profile retrieval and profile update holds
  nothing of the stored hash. Registration answers the same whatever the hash function,
  the salt and the hashes already stored; profile retrieval (through \<open>requireAuth\<close>, and
  through \<open>protect\<close> with the controller's \<open>getProfile\<close>) answers the same whatever the
  stored hashes; login and profile update answer the same whatever the stored hashes and
  the compare function, once the status of the response is the same (the hash decides
  whether a login succeeds and whether a document is valid, and nothing else). And no
  response has a member named \<open>password\<close>.
\<close>

theorem C1_no_password_member:
  "fst (register (with_bcrypt hf cf P) E (with_passwords g db1) (with_passwords g' db2)
          salt' i now b)
     = fst (register P E db1 db2 salt i now b)
   \<and> (status (fst (login (with_bcrypt hf cf P) E (with_passwords g db) b))
         = status (fst (login P E db b)) \<longrightarrow>
       fst (login (with_bcrypt hf cf P) E (with_passwords g db) b) = fst (login P E db b))
   \<and> get_profile (with_bcrypt hf cf P) E (with_passwords g db) h = get_profile P E db h
   \<and> (status (fst (update_profile (with_bcrypt hf cf P) E (with_passwords g db) h now b))
         = status (fst (update_profile P E db h now b)) \<longrightarrow>
       fst (update_profile (with_bcrypt hf cf P) E (with_passwords g db) h now b)
         = fst (update_profile P E db h now b))
   \<and> controller_get_profile (with_bcrypt hf cf P) E (with_passwords g db) h
       = controller_get_profile P E db h
   \<and> ''password'' \<notin> set (members (body (fst (register P E db1 db2 salt i now b))))
   \<and> ''password'' \<notin> set (members (body (fst (login P E db b))))
   \<and> ''password'' \<notin> set (members (body (get_profile P E db h)))
   \<and> ''password'' \<notin> set (members (body (fst (update_profile P E db h now b))))
   \<and> ''password'' \<notin> set (members (body (controller_get_profile P E db h)))"
  using register_hash_free [of hf cf P E g db1 g' db2 salt' i now b salt]
    login_hash_free [of hf cf P E g db b] get_profile_hash_free [of hf cf P E g db h]
    update_hash_free [of hf cf P E g db h now b] controller_hash_free [of hf cf P E g db h]
  by (simp add: nopw_register nopw_login nopw_get_profile nopw_update_profile nopw_controller)

lemma login_success:
  assumes "snd (validate_login b) = []"
    and "findOne (login_query (fst (validate_login b))) db = Some u"
    and "b_password (fst (validate_login b)) = Val p" and "password u = Val hh"
    and "bcrypt_compare P p hh" and "createToken P E (uid u) = Inr tok"
  shows "fst (login P E db b) = \<lparr> status = 200, body = auth_summary u tok \<rparr>"
proof -
  from assms(1) have "login P E db b = login_handler P E db (fst (validate_login b))"
    by (cases "validate_login b") (simp add: login_def)
  with assms(2-) show ?thesis
    by (simp add: login_handler_def login_try_def Let_def)
qed

lemma update_success:
  assumes "requireAuth P E db h = Inr u" and "snd (validate_update P b) = []"
    and "assign_fields P u (fst (validate_update P b)) = (doc, [])"
    and "User_save db u doc [] now = Inr (saved, db')"
  shows "update_profile P E db h now b = (\<lparr> status = 200, body = profile_view saved \<rparr>, db')"
  using assms
  by (cases "validate_update P b") (simp add: update_profile_def update_handler_def)

theorem C1_no_password_member_witness:
  "fst (login (with_bcrypt (\<lambda>pw salt. ''#'') (\<lambda>pw h. True) sample_platform) sample_env
          (with_passwords (\<lambda>u. Val ''other'') sample_store)
          (empty_body\<lparr> b_username := Val ''alice'', b_password := Val ''abcdef'' \<rparr>))
     = fst (login sample_platform sample_env sample_store
          (empty_body\<lparr> b_username := Val ''alice'', b_password := Val ''abcdef'' \<rparr>))
   \<and> fst (update_profile (with_bcrypt (\<lambda>pw salt. ''#'') (\<lambda>pw h. True) sample_platform)
          sample_env (with_passwords (\<lambda>u. Val ''other'') sample_store)
          (Some ''Bearer k.i'') 5 (empty_body\<lparr> b_phone := Val ''123-456-7890'' \<rparr>))
     = fst (update_profile sample_platform sample_env sample_store
          (Some ''Bearer k.i'') 5 (empty_body\<lparr> b_phone := Val ''123-456-7890'' \<rparr>))"
proof -
  let ?P = "with_bcrypt (\<lambda>pw salt. ''#'') (\<lambda>pw h. True) sample_platform"
  let ?db = "with_passwords (\<lambda>u. Val ''other'') sample_store"
  let ?u = "alice\<lparr> password := Val ''other'' \<rparr>"
  let ?b = "empty_body\<lparr> b_username := Val ''alice'', b_password := Val ''abcdef'' \<rparr>"
  let ?c = "empty_body\<lparr> b_phone := Val ''123-456-7890'' \<rparr>"
  have v: "validate_login ?b = (?b, [])"
    by (simp add: validate_login_defs string_defs empty_body_def)
  have q: "login_query ?b = ByUsername (Val ''alice'')"
    by (simp add: login_query_def empty_body_def)
  have f: "findOne (ByUsername (Val ''alice'')) sample_store = Some alice"
    by (simp add: store_defs string_defs sample_defs)
  then have f': "findOne (ByUsername (Val ''alice'')) ?db = Some ?u"
    by (simp add: findOne_with_passwords)
  have t: "createToken sample_platform sample_env (uid alice) = Inr ''k.i''"
    by (simp add: createToken_def sample_defs)
  then have t': "createToken ?P sample_env (uid alice) = Inr ''k.i''"
    by (simp add: createToken_with_bcrypt)
  have p: "b_password ?b = Val ''abcdef''" "password alice = Val ''$salt$abcdef''"
    "bcrypt_compare sample_platform ''abcdef'' ''$salt$abcdef''"
    "bcrypt_compare ?P ''abcdef'' ''other''" "password ?u = Val ''other''"
    by (simp_all add: sample_defs with_bcrypt_def)
  have l1: "fst (login sample_platform sample_env sample_store ?b)
      = \<lparr> status = 200, body = auth_summary alice ''k.i'' \<rparr>"
    by (rule login_success [where p = "''abcdef''" and hh = "''$salt$abcdef''"])
       (simp_all add: v q f p t)
  have l2: "fst (login ?P sample_env ?db ?b)
      = \<lparr> status = 200, body = auth_summary ?u ''k.i'' \<rparr>"
    by (rule login_success [where p = "''abcdef''" and hh = "''other''"])
       (simp_all add: v q f' p t')
  have w: "validate_update sample_platform ?c = (?c, [])"
    by (simp add: validate_update_defs string_defs regex_defs empty_body_def)
  have a: "assign_fields sample_platform alice ?c
      = (alice\<lparr> phone := Val ''123-456-7890'' \<rparr>, [])"
    by (simp add: assign_fields_def empty_body_def set_phone_def string_defs)
  have s: "User_save sample_store alice (alice\<lparr> phone := Val ''123-456-7890'' \<rparr>) [] 5
      = Inr (alice\<lparr> phone := Val ''123-456-7890'', updatedAt := 5 \<rparr>,
             [alice\<lparr> phone := Val ''123-456-7890'', updatedAt := 5 \<rparr>])"
    by (simp add: User_save_def invalid_paths_save_def set_modified_def Let_def findById_def
          sample_store_def alice_def)
  have u1: "status (fst (update_profile sample_platform sample_env sample_store
      (Some ''Bearer k.i'') 5 ?c)) = 200"
    using update_success [OF sample_gate _ _ s, where b = ?c] w a by simp
  have g': "requireAuth ?P sample_env ?db (Some ''Bearer k.i'') = Inr ?u"
    by (simp add: requireAuth_with_passwords sample_gate)
  have w': "validate_update ?P ?c = (?c, [])"
    by (simp add: validate_update_with_bcrypt w)
  have a': "assign_fields ?P ?u ?c = (?u\<lparr> phone := Val ''123-456-7890'' \<rparr>, [])"
    by (simp add: assign_fields_password a)
  have s': "User_save ?db ?u (?u\<lparr> phone := Val ''123-456-7890'' \<rparr>) [] 5
      = Inr (?u\<lparr> phone := Val ''123-456-7890'', updatedAt := 5 \<rparr>,
             [?u\<lparr> phone := Val ''123-456-7890'', updatedAt := 5 \<rparr>])"
    by (simp add: User_save_def invalid_paths_save_def set_modified_def Let_def findById_def
          with_passwords_def sample_store_def alice_def)
  have u2: "status (fst (update_profile ?P sample_env ?db (Some ''Bearer k.i'') 5 ?c)) = 200"
    using update_success [OF g' _ _ s', where b = ?c] w' a' by simp
  from l1 l2 have sl: "status (fst (login ?P sample_env ?db ?b))
      = status (fst (login sample_platform sample_env sample_store ?b))"
    by simp
  from u1 u2 have su: "status (fst (update_profile ?P sample_env ?db (Some ''Bearer k.i'') 5 ?c))
      = status (fst (update_profile sample_platform sample_env sample_store
          (Some ''Bearer k.i'') 5 ?c))"
    by simp
  from C1_no_password_member [where hf = "\<lambda>pw salt. ''#''" and cf = "\<lambda>pw h. True"
      and P = sample_platform and E = sample_env and g = "\<lambda>u. Val ''other''"
      and db = sample_store and b = ?b and h = "Some ''Bearer k.i''" and now = 5]
    sl
  have A: "fst (login ?P sample_env ?db ?b)
      = fst (login sample_platform sample_env sample_store ?b)"
    by blast
  from C1_no_password_member [where hf = "\<lambda>pw salt. ''#''" and cf = "\<lambda>pw h. True"
      and P = sample_platform and E = sample_env and g = "\<lambda>u. Val ''other''"
      and db = sample_store and b = ?c and h = "Some ''Bearer k.i''" and now = 5]
    su
  have B: "fst (update_profile ?P sample_env ?db (Some ''Bearer k.i'') 5 ?c)
      = fst (update_profile sample_platform sample_env sample_store
          (Some ''Bearer k.i'') 5 ?c)"
    by blast
  from A B show ?thesis by simp
qed

section \<open>Rejections of the authorization gates\<close>

lemma bearer_header:
  "startsWith (header_of h) ''Bearer '' \<Longrightarrow>
   \<exists>hd. h = Some hd \<and> hd \<noteq> [] \<and> startsWith hd ''Bearer ''"
  by (cases h) (auto simp: header_of_def startsWith_def)

lemma requireAuth_missing:
  "\<not> startsWith (header_of h) ''Bearer '' \<Longrightarrow>
   requireAuth P E db h = Inl (json_msg 401 ''Not authorized, token missing'')"
  by (simp add: requireAuth_def)

lemma requireAuth_invalid:
  "startsWith (header_of h) ''Bearer '' \<Longrightarrow>
   requireAuth_try P E db (bearer_token (header_of h)) = Inl e \<Longrightarrow>
   requireAuth P E db h = Inl (json_msg 401 ''Not authorized, token invalid'')"
  by (simp add: requireAuth_def)

lemma requireAuth_status: "requireAuth P E db h = Inl r \<Longrightarrow> status r = 401"
  by (auto simp: requireAuth_def requireAuth_try_def Let_def json_msg_def
      split: if_splits sum.splits option.splits)

lemma protect_status: "protect P E db h = Inl r \<Longrightarrow> status r = 401"
  by (auto simp: protect_def json_msg_def split: if_splits sum.splits option.splits)

text \<open>
  C2 (as amended). Every rejection of a gate has status 401, but the message depends on
  the case. \<open>requireAuth\<close>: no header or no \<open>Bearer \<close> prefix gives
  \<open>Not authorized, token missing\<close>; every failure of verification (whatever
  \<open>jwt.verify\<close> throws: malformed, invalid signature, expired; or no signing secret) gives
  the one message \<open>Not authorized, token invalid\<close>; a verified token whose id does not
  resolve gives \<open>Not authorized\<close>. \<open>protect\<close>: \<open>Not authorized, no token provided\<close> and
  \<open>Not authorized, token failed\<close>, and an id that does not resolve is not rejected by the
  gate (the controller then answers \<open>Not authorized\<close>).
\<close>

theorem C2_gate_rejections:
  "(\<not> startsWith (header_of h) ''Bearer '' \<longrightarrow>
      requireAuth P E db h = Inl (json_msg 401 ''Not authorized, token missing'') \<and>
      protect P E db h = Inl (json_msg 401 ''Not authorized, no token provided''))
   \<and> (startsWith (header_of h) ''Bearer '' \<and>
        (unset (JWT_SECRET E) \<or>
         (\<exists>e. jwt_verify_js P (bearer_token (header_of h)) (the (JWT_SECRET E)) = Inl e)) \<longrightarrow>
      requireAuth P E db h = Inl (json_msg 401 ''Not authorized, token invalid'') \<and>
      protect P E db h = Inl (json_msg 401 ''Not authorized, token failed''))
   \<and> (startsWith (header_of h) ''Bearer '' \<and> \<not> unset (JWT_SECRET E) \<and>
        jwt_verify_js P (bearer_token (header_of h)) (the (JWT_SECRET E)) = Inr d \<and>
        (case d of None \<Rightarrow> None | Some i \<Rightarrow> findById i db) = None \<longrightarrow>
      requireAuth P E db h = Inl (json_msg 401 ''Not authorized'') \<and>
      protect P E db h = Inr None \<and>
      controller_get_profile P E db h = json_msg 401 ''Not authorized'')
   \<and> (\<forall>r. requireAuth P E db h = Inl r \<or> protect P E db h = Inl r \<longrightarrow> status r = 401)"
proof (intro conjI impI allI)
  assume a: "\<not> startsWith (header_of h) ''Bearer ''"
  show "requireAuth P E db h = Inl (json_msg 401 ''Not authorized, token missing'')"
    using a by (rule requireAuth_missing)
  show "protect P E db h = Inl (json_msg 401 ''Not authorized, no token provided'')"
    using a by (cases h) (auto simp: protect_def header_of_def)
next
  assume a: "startsWith (header_of h) ''Bearer '' \<and>
        (unset (JWT_SECRET E) \<or>
         (\<exists>e. jwt_verify_js P (bearer_token (header_of h)) (the (JWT_SECRET E)) = Inl e))"
  then obtain hd where h: "h = Some hd" "hd \<noteq> []" "startsWith hd ''Bearer ''"
    using bearer_header by blast
  from a have "\<exists>e. requireAuth_try P E db (bearer_token (header_of h)) = Inl e"
    by (auto simp: requireAuth_try_def unset_def split: option.splits)
  with a show "requireAuth P E db h = Inl (json_msg 401 ''Not authorized, token invalid'')"
    by (auto intro: requireAuth_invalid)
  from a have "\<exists>e. protect_try P E db (bearer_token hd) = Inl e"
    by (auto simp: protect_try_def unset_def h header_of_def split: option.splits)
  then show "protect P E db h = Inl (json_msg 401 ''Not authorized, token failed'')"
    using h by (auto simp: protect_def)
next
  assume a: "startsWith (header_of h) ''Bearer '' \<and> \<not> unset (JWT_SECRET E) \<and>
        jwt_verify_js P (bearer_token (header_of h)) (the (JWT_SECRET E)) = Inr d \<and>
        (case d of None \<Rightarrow> None | Some i \<Rightarrow> findById i db) = None"
  then obtain hd where h: "h = Some hd" "hd \<noteq> []" "startsWith hd ''Bearer ''"
    using bearer_header by blast
  from a show "requireAuth P E db h = Inl (json_msg 401 ''Not authorized'')"
    by (auto simp: requireAuth_def requireAuth_try_def unset_def h header_of_def
        split: option.splits)
  from a show p: "protect P E db h = Inr None"
    by (auto simp: protect_def protect_try_def unset_def h header_of_def split: option.splits)
  show "controller_get_profile P E db h = json_msg 401 ''Not authorized''"
    by (simp add: controller_get_profile_def p getProfile_def)
next
  fix r assume "requireAuth P E db h = Inl r \<or> protect P E db h = Inl r"
  then show "status r = 401"
    using requireAuth_status protect_status by blast
qed

theorem C2_gate_rejections_witness:
  "requireAuth sample_platform sample_env sample_store None
     = Inl (json_msg 401 ''Not authorized, token missing'')
   \<and> requireAuth sample_platform sample_env sample_store (Some ''Bearer expired'')
     = Inl (json_msg 401 ''Not authorized, token invalid'')
   \<and> requireAuth sample_platform sample_env sample_store (Some ''Bearer x.i'')
     = Inl (json_msg 401 ''Not authorized, token invalid'')
   \<and> requireAuth sample_platform sample_env sample_store (Some ''Bearer k.ii'')
     = Inl (json_msg 401 ''Not authorized'')
   \<and> protect sample_platform sample_env sample_store (Some ''Bearer k.ii'') = Inr None"
proof -
  have 1: "\<not> startsWith (header_of None) ''Bearer ''"
    by (simp add: gate_defs)
  have 2: "startsWith (header_of (Some ''Bearer expired'')) ''Bearer '' \<and>
        (unset (JWT_SECRET sample_env) \<or>
         (\<exists>e. jwt_verify_js sample_platform (bearer_token (header_of (Some ''Bearer expired'')))
                (the (JWT_SECRET sample_env)) = Inl e))"
    by (simp add: gate_defs sample_defs)
  have 3: "startsWith (header_of (Some ''Bearer x.i'')) ''Bearer '' \<and>
        (unset (JWT_SECRET sample_env) \<or>
         (\<exists>e. jwt_verify_js sample_platform (bearer_token (header_of (Some ''Bearer x.i'')))
                (the (JWT_SECRET sample_env)) = Inl e))"
    by (simp add: gate_defs sample_defs)
  have 4: "startsWith (header_of (Some ''Bearer k.ii'')) ''Bearer '' \<and>
        \<not> unset (JWT_SECRET sample_env) \<and>
        jwt_verify_js sample_platform (bearer_token (header_of (Some ''Bearer k.ii'')))
          (the (JWT_SECRET sample_env)) = Inr (Some 2) \<and>
        (case Some 2 of None \<Rightarrow> None | Some i \<Rightarrow> findById i sample_store) = None"
    by (simp add: gate_defs sample_defs)
  note t = C2_gate_rejections [where P = sample_platform and E = sample_env
      and db = sample_store]
  from 1 t [where h = None] 2 t [where h = "Some ''Bearer expired''"]
       3 t [where h = "Some ''Bearer x.i''"]
       4 t [where h = "Some ''Bearer k.ii''" and d = "Some 2"]
  show ?thesis by blast
qed

theorem C2_counterexample:
  "\<not> (body (json_msg 401 ''Not authorized, token missing'')
        = body (json_msg 401 ''Not authorized, token invalid''))
   \<and> requireAuth sample_platform sample_env sample_store None
     = Inl (json_msg 401 ''Not authorized, token missing'')
   \<and> requireAuth sample_platform sample_env sample_store (Some ''Bearer expired'')
     = Inl (json_msg 401 ''Not authorized, token invalid'')"
  by (simp add: gate_defs sample_defs json_msg_def)

section \<open>Login\<close>

lemma login_valid:
  "snd (validate_login b) = [] \<Longrightarrow>
   login P E db b = login_handler P E db (fst (validate_login b))"
  by (cases "validate_login b") (simp add: login_def)

lemma login_not_found:
  "findOne (login_query b) db = None \<Longrightarrow>
   login_handler P E db b = (invalid_credentials, [FindOne (login_query b)])"
  by (simp add: login_handler_def login_try_def)

lemma login_found_calls:
  "findOne (login_query b) db = Some u \<Longrightarrow>
   snd (login_handler P E db b)
     = [FindOne (login_query b), BcryptCompare (b_password b) (password u)]"
  by (simp add: login_handler_def login_try_def Let_def
      split: js.splits sum.splits prod.splits)

lemma login_mismatch:
  "findOne (login_query b) db = Some u \<Longrightarrow> b_password b = Val p \<Longrightarrow> password u = Val h \<Longrightarrow>
   \<not> bcrypt_compare P p h \<Longrightarrow> fst (login_handler P E db b) = invalid_credentials"
  by (simp add: login_handler_def login_try_def)

lemma validate_login_password:
  "snd (validate_login b) = [] \<Longrightarrow>
   \<exists>p. b_password (fst (validate_login b)) = Val p \<and> p \<noteq> []"
  by (cases "b_password b")
     (auto simp: validate_login_defs split: prod.splits if_splits)

lemma validate_login_username:
  "b_username (fst (validate_login b))
   = (if truthy (b_username b) then Val (trim (to_string (b_username b))) else b_username b)"
  by (auto simp: validate_login_defs split: prod.splits if_splits)

text \<open>
  C3. For a login request that passes validation, the response when the lookup finds no
  account and the response when the account is found but \<open>bcrypt.compare\<close> returns false
  are the same: status 401 with the message \<open>Invalid credentials\<close>.
\<close>

theorem C3_same_invalid_credentials:
  assumes "snd (validate_login b) = []"
  shows "(findOne (login_query (fst (validate_login b))) db = None \<longrightarrow>
            fst (login P E db b) = json_msg 401 ''Invalid credentials'')
       \<and> (\<forall>u h. findOne (login_query (fst (validate_login b))) db = Some u \<and>
                 password u = Val h \<and>
                 \<not> bcrypt_compare P (to_string (b_password (fst (validate_login b)))) h \<longrightarrow>
            fst (login P E db b) = json_msg 401 ''Invalid credentials'')"
proof (intro conjI impI allI)
  assume "findOne (login_query (fst (validate_login b))) db = None"
  then show "fst (login P E db b) = json_msg 401 ''Invalid credentials''"
    using assms by (simp add: login_valid login_not_found invalid_credentials_def)
next
  fix u h
  assume a: "findOne (login_query (fst (validate_login b))) db = Some u \<and>
             password u = Val h \<and>
             \<not> bcrypt_compare P (to_string (b_password (fst (validate_login b)))) h"
  from assms obtain p where p: "b_password (fst (validate_login b)) = Val p"
    using validate_login_password by blast
  with a have "\<not> bcrypt_compare P p h"
    by (simp add: to_string_def)
  with a p have "fst (login_handler P E db (fst (validate_login b))) = invalid_credentials"
    by (auto intro: login_mismatch)
  then show "fst (login P E db b) = json_msg 401 ''Invalid credentials''"
    using assms by (simp add: login_valid invalid_credentials_def)
qed

theorem C3_same_invalid_credentials_witness:
  "fst (login sample_platform sample_env sample_store
          (empty_body\<lparr> b_username := Val ''nobody'', b_password := Val ''abcdef'' \<rparr>))
     = json_msg 401 ''Invalid credentials''
   \<and> fst (login sample_platform sample_env sample_store
          (empty_body\<lparr> b_username := Val ''alice'', b_password := Val ''wrong'' \<rparr>))
     = json_msg 401 ''Invalid credentials''"
proof -
  let ?b1 = "empty_body\<lparr> b_username := Val ''nobody'', b_password := Val ''abcdef'' \<rparr>"
  let ?b2 = "empty_body\<lparr> b_username := Val ''alice'', b_password := Val ''wrong'' \<rparr>"
  have v1: "validate_login ?b1 = (?b1, [])"
    by (simp add: validate_login_defs string_defs sample_defs)
  have v2: "validate_login ?b2 = (?b2, [])"
    by (simp add: validate_login_defs string_defs sample_defs)
  have f1: "findOne (login_query (fst (validate_login ?b1))) sample_store = None"
    by (simp only: v1 fst_conv) (simp add: login_query_def store_defs string_defs sample_defs)
  have f2: "findOne (login_query (fst (validate_login ?b2))) sample_store = Some alice \<and>
            password alice = Val ''$salt$abcdef'' \<and>
            \<not> bcrypt_compare sample_platform
                (to_string (b_password (fst (validate_login ?b2)))) ''$salt$abcdef''"
    by (simp only: v2 fst_conv)
       (simp add: login_query_def store_defs string_defs sample_defs to_string_def)
  have s1: "snd (validate_login ?b1) = []" by (simp add: v1)
  have s2: "snd (validate_login ?b2) = []" by (simp add: v2)
  from C3_same_invalid_credentials [OF s1, of sample_store sample_platform sample_env] f1
       C3_same_invalid_credentials [OF s2, of sample_store sample_platform sample_env] f2
  show ?thesis by blast
qed

text \<open>
  C8 (as amended). For a login request that passes validation: when the lookup finds no
  account, the handler answers 401 \<open>Invalid credentials\<close> right after the lookup, and
  \<open>bcrypt.compare\<close> is not called (the lookup is the only call it awaited); when an
  account is found, the lookup is followed by one call of \<open>bcrypt.compare\<close> on the
  supplied password and the stored hash.
\<close>

theorem C8_verify_only_when_found:
  assumes "snd (validate_login b) = []"
  shows "(findOne (login_query (fst (validate_login b))) db = None \<longrightarrow>
            login P E db b
              = (json_msg 401 ''Invalid credentials'',
                 [FindOne (login_query (fst (validate_login b)))]))
       \<and> (\<forall>u. findOne (login_query (fst (validate_login b))) db = Some u \<longrightarrow>
            snd (login P E db b)
              = [FindOne (login_query (fst (validate_login b))),
                 BcryptCompare (b_password (fst (validate_login b))) (password u)])"
  using assms
  by (simp add: login_valid login_not_found login_found_calls invalid_credentials_def)

theorem C8_verify_only_when_found_witness:
  "login sample_platform sample_env sample_store
      (empty_body\<lparr> b_username := Val ''bob'', b_password := Val ''abcdef'' \<rparr>)
     = (json_msg 401 ''Invalid credentials'', [FindOne (ByUsername (Val ''bob''))])
   \<and> snd (login sample_platform sample_env sample_store
      (empty_body\<lparr> b_username := Val ''alice'', b_password := Val ''abcdef'' \<rparr>))
     = [FindOne (ByUsername (Val ''alice'')),
        BcryptCompare (Val ''abcdef'') (Val ''$salt$abcdef'')]"
proof -
  let ?b1 = "empty_body\<lparr> b_username := Val ''bob'', b_password := Val ''abcdef'' \<rparr>"
  let ?b2 = "empty_body\<lparr> b_username := Val ''alice'', b_password := Val ''abcdef'' \<rparr>"
  have v1: "validate_login ?b1 = (?b1, [])"
    by (simp add: validate_login_defs string_defs sample_defs)
  have v2: "validate_login ?b2 = (?b2, [])"
    by (simp add: validate_login_defs string_defs sample_defs)
  have q1: "login_query ?b1 = ByUsername (Val ''bob'')"
    by (simp add: login_query_def sample_defs)
  have q2: "login_query ?b2 = ByUsername (Val ''alice'')"
    by (simp add: login_query_def sample_defs)
  have f1: "findOne (ByUsername (Val ''bob'')) sample_store = None"
    by (simp add: store_defs string_defs sample_defs)
  have f2: "findOne (ByUsername (Val ''alice'')) sample_store = Some alice"
    by (simp add: store_defs string_defs sample_defs)
  have p2: "b_password ?b2 = Val ''abcdef''" "password alice = Val ''$salt$abcdef''"
    by (simp_all add: sample_defs)
  have s1: "snd (validate_login ?b1) = []" by (simp add: v1)
  have s2: "snd (validate_login ?b2) = []" by (simp add: v2)
  have a: "login sample_platform sample_env sample_store ?b1
      = (json_msg 401 ''Invalid credentials'', [FindOne (ByUsername (Val ''bob''))])"
    using C8_verify_only_when_found [OF s1, of sample_store sample_platform sample_env] f1
    unfolding v1 fst_conv q1 by simp
  have b: "snd (login sample_platform sample_env sample_store ?b2)
      = [FindOne (ByUsername (Val ''alice'')),
         BcryptCompare (Val ''abcdef'') (Val ''$salt$abcdef'')]"
    using C8_verify_only_when_found [OF s2, of sample_store sample_platform sample_env] f2
    unfolding v2 fst_conv q2 p2(1) by (simp add: p2(2))
  from a b show ?thesis by simp
qed

theorem C8_counterexample:
  "snd (validate_login (empty_body\<lparr> b_username := Val ''nobody'', b_password := Val ''abcdef'' \<rparr>)) = []
   \<and> findOne (ByUsername (Val ''nobody'')) sample_store = None
   \<and> snd (login sample_platform sample_env sample_store
            (empty_body\<lparr> b_username := Val ''nobody'', b_password := Val ''abcdef'' \<rparr>))
       = [FindOne (ByUsername (Val ''nobody''))]
   \<and> \<not> (\<exists>p h. BcryptCompare p h \<in> set (snd (login sample_platform sample_env sample_store
            (empty_body\<lparr> b_username := Val ''nobody'', b_password := Val ''abcdef'' \<rparr>))))"
proof -
  let ?b = "empty_body\<lparr> b_username := Val ''nobody'', b_password := Val ''abcdef'' \<rparr>"
  have v: "validate_login ?b = (?b, [])"
    by (simp add: validate_login_defs string_defs sample_defs)
  have q: "login_query ?b = ByUsername (Val ''nobody'')"
    by (simp add: login_query_def sample_defs)
  have f: "findOne (ByUsername (Val ''nobody'')) sample_store = None"
    by (simp add: store_defs string_defs sample_defs)
  have "login sample_platform sample_env sample_store ?b
          = (invalid_credentials, [FindOne (ByUsername (Val ''nobody''))])"
    using login_not_found [of ?b sample_store] f
    by (simp add: login_def v q)
  with v f show ?thesis by simp
qed


lemma login_handler_cong:
  "login_query b1 = login_query b2 \<Longrightarrow> b_password b1 = b_password b2 \<Longrightarrow>
   login_handler P E db b1 = login_handler P E db b2"
  by (simp add: login_handler_def login_try_def Let_def split: option.splits)

lemma validate_login_email_irrelevant:
  "b_username (fst (validate_login (b\<lparr> b_email := e \<rparr>))) = b_username (fst (validate_login b)) \<and>
   b_password (fst (validate_login (b\<lparr> b_email := e \<rparr>))) = b_password (fst (validate_login b))"
  by (simp add: validate_login_defs split: prod.splits)

lemma trim_nonempty_truthy: "trim (to_string v) \<noteq> [] \<Longrightarrow> truthy v"
  by (cases v) (auto simp: to_string_def trim_def)

text \<open>
  C9 (as amended). For a login request that passes validation and supplies an email and a
  username that is not empty once trimmed, the lookup is by the trimmed username alone;
  any other email that passes validation gives the same response and the same calls; and
  when no account has that username the response is 401 \<open>Invalid credentials\<close>, whether
  or not the email belongs to an account.
\<close>

theorem C9_login_by_username_only:
  assumes "trim (to_string (b_username b)) \<noteq> []" and "truthy (b_email b)"
    and "snd (validate_login b) = []"
  shows "login_query (fst (validate_login b))
           = ByUsername (Val (trim (to_string (b_username b))))
       \<and> (\<forall>e. snd (validate_login (b\<lparr> b_email := e \<rparr>)) = [] \<longrightarrow>
                login P E db (b\<lparr> b_email := e \<rparr>) = login P E db b)
       \<and> (findOne (ByUsername (Val (trim (to_string (b_username b))))) db = None \<longrightarrow>
            login P E db b
              = (json_msg 401 ''Invalid credentials'',
                 [FindOne (ByUsername (Val (trim (to_string (b_username b)))))]))"
proof (intro conjI allI impI)
  from assms(1) have un: "b_username (fst (validate_login b))
      = Val (trim (to_string (b_username b)))"
    by (simp add: validate_login_username trim_nonempty_truthy)
  with assms(1) have u: "truthy (b_username (fst (validate_login b)))"
    by simp
  from un u show q: "login_query (fst (validate_login b))
           = ByUsername (Val (trim (to_string (b_username b))))"
    by (simp add: login_query_def)
  {
    assume "findOne (ByUsername (Val (trim (to_string (b_username b))))) db = None"
    with q assms(3) show "login P E db b
              = (json_msg 401 ''Invalid credentials'',
                 [FindOne (ByUsername (Val (trim (to_string (b_username b)))))])"
      using login_not_found [of "fst (validate_login b)" db P E]
      by (simp add: login_valid invalid_credentials_def)
  }
  fix e
  assume e: "snd (validate_login (b\<lparr> b_email := e \<rparr>)) = []"
  from validate_login_email_irrelevant [where b = b and e = e] u
  have "login_query (fst (validate_login (b\<lparr> b_email := e \<rparr>)))
          = login_query (fst (validate_login b))"
    by (simp add: login_query_def)
  then have "login_handler P E db (fst (validate_login (b\<lparr> b_email := e \<rparr>)))
          = login_handler P E db (fst (validate_login b))"
    using validate_login_email_irrelevant [where b = b and e = e]
    by (auto intro: login_handler_cong)
  then show "login P E db (b\<lparr> b_email := e \<rparr>) = login P E db b"
    using e assms(3) by (simp add: login_valid)
qed

theorem C9_login_by_username_only_witness:
  "login sample_platform sample_env sample_store
      (empty_body\<lparr> b_username := Val ''nobody'', b_password := Val ''abcdef'',
                   b_email := Val ''a@x.com'' \<rparr>)
     = (json_msg 401 ''Invalid credentials'', [FindOne (ByUsername (Val ''nobody''))])
   \<and> findOne (ByEmail (Val ''a@x.com'')) sample_store = Some alice
   \<and> login sample_platform sample_env sample_store
        ((empty_body\<lparr> b_username := Val ''nobody'', b_password := Val ''abcdef'',
                      b_email := Val ''a@x.com'' \<rparr>)\<lparr> b_email := Undefined \<rparr>)
     = login sample_platform sample_env sample_store
        (empty_body\<lparr> b_username := Val ''nobody'', b_password := Val ''abcdef'',
                     b_email := Val ''a@x.com'' \<rparr>)"
proof -
  let ?b = "empty_body\<lparr> b_username := Val ''nobody'', b_password := Val ''abcdef'',
                        b_email := Val ''a@x.com'' \<rparr>"
  have n: "trim (to_string (b_username ?b)) = ''nobody''"
    by (simp add: to_string_def string_defs sample_defs)
  then have t1: "trim (to_string (b_username ?b)) \<noteq> []"
    by simp
  have t2: "truthy (b_email ?b)"
    by (simp add: sample_defs)
  have v: "snd (validate_login ?b) = []"
    by (simp add: validate_login_defs string_defs regex_defs sample_defs)
  have v': "snd (validate_login (?b\<lparr> b_email := Undefined \<rparr>)) = []"
    by (simp add: validate_login_defs string_defs sample_defs)
  have f: "findOne (ByUsername (Val ''nobody'')) sample_store = None"
    by (simp add: store_defs string_defs sample_defs)
  have g: "findOne (ByEmail (Val ''a@x.com'')) sample_store = Some alice"
    by (simp add: store_defs string_defs sample_defs)
  from C9_login_by_username_only [OF t1 t2 v, of sample_platform sample_env sample_store]
  have "(\<forall>e. snd (validate_login (?b\<lparr> b_email := e \<rparr>)) = [] \<longrightarrow>
                login sample_platform sample_env sample_store (?b\<lparr> b_email := e \<rparr>)
                  = login sample_platform sample_env sample_store ?b)
       \<and> (findOne (ByUsername (Val ''nobody'')) sample_store = None \<longrightarrow>
            login sample_platform sample_env sample_store ?b
              = (json_msg 401 ''Invalid credentials'', [FindOne (ByUsername (Val ''nobody''))]))"
    unfolding n by blast
  with f g v' show ?thesis by blast
qed

theorem C9_counterexample:
  "truthy (b_username (empty_body\<lparr> b_username := Val ''   '', b_password := Val ''abcdef'',
                                   b_email := Val ''a@x.com'' \<rparr>))
   \<and> truthy (b_email (empty_body\<lparr> b_username := Val ''   '', b_password := Val ''abcdef'',
                                   b_email := Val ''a@x.com'' \<rparr>))
   \<and> snd (validate_login (empty_body\<lparr> b_username := Val ''   '', b_password := Val ''abcdef'',
                                   b_email := Val ''a@x.com'' \<rparr>)) = []
   \<and> findOne (ByUsername (Val ''   '')) sample_store = None
   \<and> findOne (ByEmail (Val ''a@x.com'')) sample_store = Some alice
   \<and> login sample_platform sample_env sample_store
        (empty_body\<lparr> b_username := Val ''   '', b_password := Val ''abcdef'',
                     b_email := Val ''a@x.com'' \<rparr>)
       = (\<lparr> status = 200, body = auth_summary alice ''k.i'' \<rparr>,
          [FindOne (ByEmail (Val ''a@x.com'')),
           BcryptCompare (Val ''abcdef'') (Val ''$salt$abcdef'')])
   \<and> \<not> (fst (login sample_platform sample_env sample_store
        (empty_body\<lparr> b_username := Val ''   '', b_password := Val ''abcdef'',
                     b_email := Val ''a@x.com'' \<rparr>)) = json_msg 401 ''Invalid credentials'')"
proof -
  let ?b = "empty_body\<lparr> b_username := Val ''   '', b_password := Val ''abcdef'',
                        b_email := Val ''a@x.com'' \<rparr>"
  let ?b' = "empty_body\<lparr> b_username := Val [], b_password := Val ''abcdef'',
                        b_email := Val ''a@x.com'' \<rparr>"
  have v: "validate_login ?b = (?b', [])"
    by (simp add: validate_login_defs string_defs regex_defs empty_body_def)
  have q: "login_query ?b' = ByEmail (Val ''a@x.com'')"
    by (simp add: login_query_def empty_body_def)
  have f: "findOne (ByUsername (Val ''   '')) sample_store = None"
    by (simp add: store_defs string_defs sample_defs)
  have g: "findOne (ByEmail (Val ''a@x.com'')) sample_store = Some alice"
    by (simp add: store_defs string_defs sample_defs)
  have t: "createToken sample_platform sample_env (uid alice) = Inr ''k.i''"
    by (simp add: createToken_def sample_defs)
  have p: "b_password ?b' = Val ''abcdef''" "password alice = Val ''$salt$abcdef''"
    "bcrypt_compare sample_platform ''abcdef'' ''$salt$abcdef''"
    by (simp_all add: sample_defs)
  have h: "login_handler sample_platform sample_env sample_store ?b'
      = (\<lparr> status = 200, body = auth_summary alice ''k.i'' \<rparr>,
         [FindOne (ByEmail (Val ''a@x.com'')),
          BcryptCompare (Val ''abcdef'') (Val ''$salt$abcdef'')])"
    by (simp add: login_handler_def login_try_def Let_def q g p t)
  then have l: "login sample_platform sample_env sample_store ?b
      = (\<lparr> status = 200, body = auth_summary alice ''k.i'' \<rparr>,
         [FindOne (ByEmail (Val ''a@x.com'')),
          BcryptCompare (Val ''abcdef'') (Val ''$salt$abcdef'')])"
    by (simp add: login_def v)
  have "truthy (b_username ?b)" "truthy (b_email ?b)"
    by (simp_all add: empty_body_def)
  with v f g l show ?thesis
    by (simp add: json_msg_def)
qed

section \<open>Profile update\<close>

lemma findById_Some: "findById i db = Some u \<Longrightarrow> uid u = i"
  by (auto simp: findById_def find_Some_iff)

lemma requireAuth_Inr: "requireAuth P E db h = Inr u \<Longrightarrow> findById (uid u) db = Some u"
  by (auto simp: requireAuth_def requireAuth_try_def Let_def
      dest: findById_Some split: if_splits sum.splits option.splits)

lemma findById_map:
  "findById i db = Some u \<Longrightarrow> (\<And>s. uid (f s) = uid s) \<Longrightarrow>
   findById i (map f db) = Some (f u)"
  by (induction db) (auto simp: findById_def)

lemma uid_assign_fields: "uid (fst (assign_fields P u b)) = uid u"
  by (simp add: assign_fields_def Let_def)

lemma uid_set_modified: "uid (set_modified doc0 doc now s) = uid s"
  by (simp add: set_modified_def)

lemma validate_update_falsy:
  "(\<not> truthy (b_email b) \<longrightarrow> b_email (fst (validate_update P b)) = b_email b) \<and>
   (\<not> truthy (b_phone b) \<longrightarrow> b_phone (fst (validate_update P b)) = b_phone b) \<and>
   b_dob (fst (validate_update P b)) = b_dob b"
  by (auto simp: validate_update_defs split: prod.splits)

lemma save_columns:
  assumes "User_save db doc0 doc cast_errors now = Inr (saved, db')"
  shows "(email doc = email doc0 \<longrightarrow> map email db' = map email db) \<and>
         (phone doc = phone doc0 \<longrightarrow> map phone db' = map phone db) \<and>
         (dob doc = dob doc0 \<longrightarrow> map dob db' = map dob db)"
  using assms
  by (auto simp: User_save_def Let_def set_modified_def split: if_splits)

lemma save_stored:
  assumes "User_save db u doc cast_errors now = Inr (saved, db')"
    and "findById (uid u) db = Some u" and "uid doc = uid u"
  shows "\<exists>s. findById (uid u) db' = Some s \<and> email s = email doc \<and> phone s = phone doc \<and>
             dob s = dob doc"
proof (cases "doc = u")
  case True
  with assms show ?thesis by (auto simp: User_save_def Let_def split: if_splits)
next
  case False
  let ?f = "\<lambda>s. if uid s = uid doc then set_modified u doc now s else s"
  from False assms(1) have db': "db' = map ?f db"
    by (auto simp: User_save_def Let_def split: if_splits)
  have "findById (uid u) (map ?f db) = Some (?f u)"
    using assms(2) by (rule findById_map) (simp add: uid_set_modified)
  with db' assms(3) show ?thesis
    by (simp add: set_modified_def)
qed

lemma update_profile_cases:
  "update_profile P E db h now b = (r, db') \<Longrightarrow>
   db' = db \<and> status r \<noteq> 200 \<or>
   (\<exists>u saved. requireAuth P E db h = Inr u \<and> snd (validate_update P b) = [] \<and>
      User_save db u (fst (assign_fields P u (fst (validate_update P b))))
        (snd (assign_fields P u (fst (validate_update P b)))) now = Inr (saved, db') \<and>
      r = \<lparr> status = 200, body = profile_view saved \<rparr>)"
  by (auto simp: update_profile_def update_handler_def validation_failed_def json_msg_def
      dest: requireAuth_status split: sum.splits prod.splits if_splits)

text \<open>
  C5 (as amended). In every outcome of a profile update, a field absent from the request
  is left as it is stored (for every account). When the update succeeds, a phone present
  as the empty string is stored as the empty string and a null phone as null; a date of
  birth present as the empty string or null is stored as null. None of them is removed
  from the document; the profile view shows the cleared fields as it shows unset ones
  (phone as the empty string, date of birth as null).
\<close>

theorem C5_update_fields:
  "(b_email b = Undefined \<longrightarrow> map email (snd (update_profile P E db h now b)) = map email db)
   \<and> (b_phone b = Undefined \<longrightarrow> map phone (snd (update_profile P E db h now b)) = map phone db)
   \<and> (b_dob b = Undefined \<longrightarrow> map dob (snd (update_profile P E db h now b)) = map dob db)
   \<and> (\<forall>u. requireAuth P E db h = Inr u \<and> status (fst (update_profile P E db h now b)) = 200 \<longrightarrow>
         (b_phone b = Val [] \<longrightarrow>
            map_option phone (findById (uid u) (snd (update_profile P E db h now b)))
              = Some (Val [])) \<and>
         (b_phone b = Null \<longrightarrow>
            map_option phone (findById (uid u) (snd (update_profile P E db h now b)))
              = Some Null) \<and>
         (b_dob b = Val [] \<or> b_dob b = Null \<longrightarrow>
            map_option dob (findById (uid u) (snd (update_profile P E db h now b)))
              = Some Null))
   \<and> profile_view (v\<lparr> phone := Val [], dob := Null \<rparr>)
       = profile_view (v\<lparr> phone := Undefined, dob := Undefined \<rparr>)"
proof -
  obtain r db' where upd: "update_profile P E db h now b = (r, db')"
    by (cases "update_profile P E db h now b")
  let ?b' = "fst (validate_update P b)"
  note c = update_profile_cases [OF upd]
  note vf = validate_update_falsy [of b P]
  have absent:
    "(b_email b = Undefined \<longrightarrow> map email db' = map email db) \<and>
     (b_phone b = Undefined \<longrightarrow> map phone db' = map phone db) \<and>
     (b_dob b = Undefined \<longrightarrow> map dob db' = map dob db)"
  proof (rule disjE [OF c])
    assume "db' = db \<and> status r \<noteq> 200"
    then show ?thesis by simp
  next
    assume "\<exists>u saved. requireAuth P E db h = Inr u \<and> snd (validate_update P b) = [] \<and>
      User_save db u (fst (assign_fields P u ?b')) (snd (assign_fields P u ?b')) now
        = Inr (saved, db') \<and>
      r = \<lparr> status = 200, body = profile_view saved \<rparr>"
    then obtain u saved where
      s: "User_save db u (fst (assign_fields P u ?b')) (snd (assign_fields P u ?b')) now
            = Inr (saved, db')"
      by blast
    from vf save_columns [OF s] show ?thesis
      by (auto simp: assign_fields_def Let_def)
  qed
  have present: "(b_phone b = Val [] \<longrightarrow> map_option phone (findById (uid u) db') = Some (Val [])) \<and>
         (b_phone b = Null \<longrightarrow> map_option phone (findById (uid u) db') = Some Null) \<and>
         (b_dob b = Val [] \<or> b_dob b = Null \<longrightarrow> map_option dob (findById (uid u) db') = Some Null)"
    if a: "requireAuth P E db h = Inr u" and ok: "status r = 200" for u
  proof -
    from c ok a obtain saved where
      s: "User_save db u (fst (assign_fields P u ?b')) (snd (assign_fields P u ?b')) now
            = Inr (saved, db')"
      by auto
    from save_stored [OF s requireAuth_Inr [OF a] uid_assign_fields]
    obtain st where st: "findById (uid u) db' = Some st"
      "phone st = phone (fst (assign_fields P u ?b'))"
      "dob st = dob (fst (assign_fields P u ?b'))"
      by blast
    from vf show ?thesis
      by (auto simp: st assign_fields_def Let_def set_phone_def trim_def)
  qed
  have view: "profile_view (v\<lparr> phone := Val [], dob := Null \<rparr>)
       = profile_view (v\<lparr> phone := Undefined, dob := Undefined \<rparr>)"
    by (simp add: profile_view_def)
  from absent present view show ?thesis
    unfolding upd fst_conv snd_conv by blast
qed

lemma sample_update_phone:
  "update_profile sample_platform sample_env sample_store (Some ''Bearer k.i'') 5
        (empty_body\<lparr> b_phone := Val [] \<rparr>)
     = (\<lparr> status = 200, body = profile_view (alice\<lparr> phone := Val [], updatedAt := 5 \<rparr>) \<rparr>,
        [alice\<lparr> phone := Val [], updatedAt := 5 \<rparr>])"
proof -
  let ?b = "empty_body\<lparr> b_phone := Val [] \<rparr>"
  have v: "validate_update sample_platform ?b = (?b, [])"
    by (simp add: validate_update_defs empty_body_def)
  have a: "assign_fields sample_platform alice ?b = (alice\<lparr> phone := Val [] \<rparr>, [])"
    by (simp add: assign_fields_def empty_body_def set_phone_def trim_def)
  have s: "User_save sample_store alice (alice\<lparr> phone := Val [] \<rparr>) [] 5
      = Inr (alice\<lparr> phone := Val [], updatedAt := 5 \<rparr>,
             [alice\<lparr> phone := Val [], updatedAt := 5 \<rparr>])"
    by (simp add: User_save_def invalid_paths_save_def set_modified_def Let_def findById_def
          sample_store_def alice_def)
  show ?thesis
    by (simp add: update_profile_def sample_gate v update_handler_def a s)
qed

lemma sample_update_clear:
  "update_profile sample_platform sample_env sample_store (Some ''Bearer k.i'') 5
        (empty_body\<lparr> b_phone := Val [], b_dob := Val [] \<rparr>)
     = (\<lparr> status = 200,
          body = profile_view (alice\<lparr> phone := Val [], dob := Null, updatedAt := 5 \<rparr>) \<rparr>,
        [alice\<lparr> phone := Val [], dob := Null, updatedAt := 5 \<rparr>])"
proof -
  let ?b = "empty_body\<lparr> b_phone := Val [], b_dob := Val [] \<rparr>"
  have v: "validate_update sample_platform ?b = (?b, [])"
    by (simp add: validate_update_defs empty_body_def)
  have a: "assign_fields sample_platform alice ?b
      = (alice\<lparr> phone := Val [], dob := Null \<rparr>, [])"
    by (simp add: assign_fields_def empty_body_def set_phone_def trim_def)
  have s: "User_save sample_store alice (alice\<lparr> phone := Val [], dob := Null \<rparr>) [] 5
      = Inr (alice\<lparr> phone := Val [], dob := Null, updatedAt := 5 \<rparr>,
             [alice\<lparr> phone := Val [], dob := Null, updatedAt := 5 \<rparr>])"
    by (simp add: User_save_def invalid_paths_save_def set_modified_def Let_def findById_def
          sample_store_def alice_def)
  show ?thesis
    by (simp add: update_profile_def sample_gate v update_handler_def a s)
qed

theorem C5_update_fields_witness:
  "map email (snd (update_profile sample_platform sample_env sample_store (Some ''Bearer k.i'') 5
        (empty_body\<lparr> b_phone := Val [], b_dob := Val [] \<rparr>))) = map email sample_store
   \<and> map_option phone (findById (uid alice)
        (snd (update_profile sample_platform sample_env sample_store (Some ''Bearer k.i'') 5
          (empty_body\<lparr> b_phone := Val [], b_dob := Val [] \<rparr>)))) = Some (Val [])
   \<and> map_option dob (findById (uid alice)
        (snd (update_profile sample_platform sample_env sample_store (Some ''Bearer k.i'') 5
          (empty_body\<lparr> b_phone := Val [], b_dob := Val [] \<rparr>)))) = Some Null"
proof -
  let ?b = "empty_body\<lparr> b_phone := Val [], b_dob := Val [] \<rparr>"
  have e: "b_email ?b = Undefined" and p: "b_phone ?b = Val []" and d: "b_dob ?b = Val []"
    by (simp_all add: empty_body_def)
  have ok: "status (fst (update_profile sample_platform sample_env sample_store
                           (Some ''Bearer k.i'') 5 ?b)) = 200"
    by (simp add: sample_update_clear)
  from C5_update_fields [of ?b sample_platform sample_env sample_store "Some ''Bearer k.i''" 5]
    e p d ok sample_gate
  show ?thesis by blast
qed

theorem C5_counterexample:
  "requireAuth sample_platform sample_env sample_store (Some ''Bearer k.i'') = Inr alice
   \<and> phone alice = Undefined
   \<and> update_profile sample_platform sample_env sample_store (Some ''Bearer k.i'') 5
        (empty_body\<lparr> b_phone := Val [] \<rparr>)
     = (\<lparr> status = 200, body = profile_view (alice\<lparr> phone := Val [], updatedAt := 5 \<rparr>) \<rparr>,
        [alice\<lparr> phone := Val [], updatedAt := 5 \<rparr>])
   \<and> phone (alice\<lparr> phone := Val [], updatedAt := 5 \<rparr>) \<noteq> Undefined"
  by (simp add: sample_gate sample_update_phone) (simp add: alice_def)


lemma check_phone_errors:
  "snd (check_phone v)
   = (if trim (to_string v) = [] \<or> PHONE_REGEX (trim (to_string v)) then []
      else [field_error ''phone'' (Val (JStr (trim (to_string v))))
              ''Phone must be a valid phone number''])"
  by (cases v) (auto simp: check_phone_def to_string_def trim_def)

lemma check_dob_errors:
  "snd (check_dob P v)
   = (if \<not> truthy v \<or> isISO8601 P (to_string v) then []
      else [field_error ''dob'' (map_js JStr v)
              ''Date of birth must be a valid ISO-8601 date''])"
  by (cases v) (auto simp: check_dob_def to_string_def)

lemma validate_update_errors:
  "b_email b = Val [] \<Longrightarrow>
   snd (validate_update P b) = snd (check_phone (b_phone b)) @ snd (check_dob P (b_dob b)) \<and>
   b_email (fst (validate_update P b)) = Val []"
  by (simp add: validate_update_def check_email_def split: prod.splits)

text \<open>
  C10 (as amended). Take a profile update that passes the gate and supplies \<open>email\<close> as the
  empty string. When the phone is empty once trimmed or has the phone shape, and the
  date of birth is falsy or ISO-8601, validation passes (the falsy email skips its
  chain), the handler assigns the empty string to \<open>email\<close>, \<open>save\<close> fails validation on
  the required path \<open>email\<close>, the response is 500 \<open>Server error\<close> and the store is
  unchanged. Otherwise the response is the 400 validation response with the errors of
  \<open>phone\<close> and \<open>dob\<close>, and the store is unchanged as well.
\<close>

theorem C10_empty_email_update:
  assumes "requireAuth P E db h = Inr u" and "b_email b = Val []"
  shows "((trim (to_string (b_phone b)) = [] \<or> PHONE_REGEX (trim (to_string (b_phone b)))) \<and>
          (\<not> truthy (b_dob b) \<or> isISO8601 P (to_string (b_dob b))) \<longrightarrow>
            snd (validate_update P b) = []
          \<and> email (fst (assign_fields P u (fst (validate_update P b)))) = Val []
          \<and> (\<exists>paths. User_save db u (fst (assign_fields P u (fst (validate_update P b))))
                         (snd (assign_fields P u (fst (validate_update P b)))) now
                       = Inl (ValidationError paths) \<and> ''email'' \<in> set paths)
          \<and> update_profile P E db h now b = (json_msg 500 ''Server error'', db))
       \<and> (\<not> ((trim (to_string (b_phone b)) = [] \<or> PHONE_REGEX (trim (to_string (b_phone b)))) \<and>
              (\<not> truthy (b_dob b) \<or> isISO8601 P (to_string (b_dob b)))) \<longrightarrow>
            update_profile P E db h now b
              = (validation_failed
                   ((if trim (to_string (b_phone b)) = [] \<or>
                        PHONE_REGEX (trim (to_string (b_phone b))) then []
                     else [field_error ''phone'' (Val (JStr (trim (to_string (b_phone b)))))
                             ''Phone must be a valid phone number'']) @
                    (if \<not> truthy (b_dob b) \<or> isISO8601 P (to_string (b_dob b)) then []
                     else [field_error ''dob'' (map_js JStr (b_dob b))
                             ''Date of birth must be a valid ISO-8601 date''])), db)
          \<and> status (fst (update_profile P E db h now b)) = 400)"
proof (intro conjI impI)
  let ?b' = "fst (validate_update P b)"
  note ve = validate_update_errors [OF assms(2), of P]
  {
    assume ok: "(trim (to_string (b_phone b)) = [] \<or> PHONE_REGEX (trim (to_string (b_phone b)))) \<and>
          (\<not> truthy (b_dob b) \<or> isISO8601 P (to_string (b_dob b)))"
    with ve show v: "snd (validate_update P b) = []"
      by (simp add: check_phone_errors check_dob_errors)
    from ve show e: "email (fst (assign_fields P u ?b')) = Val []"
      by (simp add: assign_fields_def Let_def set_email_def trim_def toLowerCase_def)
    then show s: "\<exists>paths. User_save db u (fst (assign_fields P u ?b'))
                         (snd (assign_fields P u ?b')) now
                       = Inl (ValidationError paths) \<and> ''email'' \<in> set paths"
      by (simp add: User_save_def invalid_paths_save_def Let_def)
    then have "update_handler P db u now ?b' = (json_msg 500 ''Server error'', db)"
      by (cases "assign_fields P u ?b'") (auto simp: update_handler_def)
    with v assms(1) show "update_profile P E db h now b = (json_msg 500 ''Server error'', db)"
      by (cases "validate_update P b") (simp add: update_profile_def)
  }
  assume bad: "\<not> ((trim (to_string (b_phone b)) = [] \<or> PHONE_REGEX (trim (to_string (b_phone b)))) \<and>
              (\<not> truthy (b_dob b) \<or> isISO8601 P (to_string (b_dob b))))"
  with ve have ne: "snd (validate_update P b) \<noteq> []"
    by (auto simp: check_phone_errors check_dob_errors)
  with assms(1) have "update_profile P E db h now b
      = (validation_failed (snd (validate_update P b)), db)"
    by (cases "validate_update P b") (simp add: update_profile_def)
  with ve show r: "update_profile P E db h now b
              = (validation_failed
                   ((if trim (to_string (b_phone b)) = [] \<or>
                        PHONE_REGEX (trim (to_string (b_phone b))) then []
                     else [field_error ''phone'' (Val (JStr (trim (to_string (b_phone b)))))
                             ''Phone must be a valid phone number'']) @
                    (if \<not> truthy (b_dob b) \<or> isISO8601 P (to_string (b_dob b)) then []
                     else [field_error ''dob'' (map_js JStr (b_dob b))
                             ''Date of birth must be a valid ISO-8601 date''])), db)"
    by (simp add: check_phone_errors check_dob_errors)
  then show "status (fst (update_profile P E db h now b)) = 400"
    by (simp add: validation_failed_def)
qed

theorem C10_empty_email_update_witness:
  "update_profile sample_platform sample_env sample_store (Some ''Bearer k.i'') 5
      (empty_body\<lparr> b_email := Val [], b_phone := Val ''       '' \<rparr>)
     = (json_msg 500 ''Server error'', sample_store)
   \<and> update_profile sample_platform sample_env sample_store (Some ''Bearer k.i'') 5
      (empty_body\<lparr> b_email := Val [], b_phone := Val ''123-456-7890'' \<rparr>)
     = (json_msg 500 ''Server error'', sample_store)
   \<and> status (fst (update_profile sample_platform sample_env sample_store (Some ''Bearer k.i'') 5
      (empty_body\<lparr> b_email := Val [], b_dob := Val ''2020'' \<rparr>))) = 400"
proof -
  let ?b1 = "empty_body\<lparr> b_email := Val [], b_phone := Val ''       '' \<rparr>"
  let ?b2 = "empty_body\<lparr> b_email := Val [], b_phone := Val ''123-456-7890'' \<rparr>"
  let ?b3 = "empty_body\<lparr> b_email := Val [], b_dob := Val ''2020'' \<rparr>"
  have e: "b_email ?b1 = Val []" "b_email ?b2 = Val []" "b_email ?b3 = Val []"
    by (simp_all add: empty_body_def)
  have ok1: "(trim (to_string (b_phone ?b1)) = [] \<or> PHONE_REGEX (trim (to_string (b_phone ?b1)))) \<and>
          (\<not> truthy (b_dob ?b1) \<or> isISO8601 sample_platform (to_string (b_dob ?b1)))"
    by (simp add: empty_body_def to_string_def string_defs)
  have ok2: "(trim (to_string (b_phone ?b2)) = [] \<or> PHONE_REGEX (trim (to_string (b_phone ?b2)))) \<and>
          (\<not> truthy (b_dob ?b2) \<or> isISO8601 sample_platform (to_string (b_dob ?b2)))"
    by (simp add: empty_body_def to_string_def string_defs regex_defs)
  have bad3: "\<not> ((trim (to_string (b_phone ?b3)) = [] \<or> PHONE_REGEX (trim (to_string (b_phone ?b3)))) \<and>
          (\<not> truthy (b_dob ?b3) \<or> isISO8601 sample_platform (to_string (b_dob ?b3))))"
    by (simp add: empty_body_def to_string_def sample_platform_def)
  from C10_empty_email_update [OF sample_gate e(1), of 5] ok1
  have 1: "update_profile sample_platform sample_env sample_store (Some ''Bearer k.i'') 5 ?b1
     = (json_msg 500 ''Server error'', sample_store)"
    by blast
  from C10_empty_email_update [OF sample_gate e(2), of 5] ok2
  have 2: "update_profile sample_platform sample_env sample_store (Some ''Bearer k.i'') 5 ?b2
     = (json_msg 500 ''Server error'', sample_store)"
    by blast
  from C10_empty_email_update [OF sample_gate e(3), of 5] bad3
  have 3: "status (fst (update_profile sample_platform sample_env sample_store
      (Some ''Bearer k.i'') 5 ?b3)) = 400"
    by blast
  from 1 2 3 show ?thesis by simp
qed

theorem C10_counterexample:
  "requireAuth sample_platform sample_env sample_store (Some ''Bearer k.i'') = Inr alice
   \<and> update_profile sample_platform sample_env sample_store (Some ''Bearer k.i'') 5
        (empty_body\<lparr> b_email := Val [], b_phone := Val ''abc'' \<rparr>)
     = (validation_failed
          [field_error ''phone'' (Val (JStr ''abc'')) ''Phone must be a valid phone number''],
        sample_store)
   \<and> status (validation_failed
          [field_error ''phone'' (Val (JStr ''abc'')) ''Phone must be a valid phone number''])
     = 400"
proof -
  let ?b = "empty_body\<lparr> b_email := Val [], b_phone := Val ''abc'' \<rparr>"
  have v: "validate_update sample_platform ?b
      = (?b, [field_error ''phone'' (Val (JStr ''abc'')) ''Phone must be a valid phone number''])"
    by (simp add: validate_update_defs empty_body_def string_defs regex_defs)
  have "update_profile sample_platform sample_env sample_store (Some ''Bearer k.i'') 5 ?b
     = (validation_failed
          [field_error ''phone'' (Val (JStr ''abc'')) ''Phone must be a valid phone number''],
        sample_store)"
    by (simp add: update_profile_def sample_gate v)
  then show ?thesis
    by (simp add: sample_gate validation_failed_def)
qed

section \<open>Registration races and startup\<close>

text \<open>
  C6 (as amended). When a registration passes validation and the uniqueness pre-check
  finds nothing, but \<open>User.create\<close> is refused by a unique index (another request inserted
  the same username or email in between), the error is caught by the handler's
  \<open>catch\<close>: the response is 500 \<open>Server error\<close>, not the 400 \<open>already exists\<close> response,
  and nothing is stored.
\<close>

theorem C6_duplicate_on_create:
  assumes "snd (validate_register P b) = []"
    and "findOne (Or (ByEmail (b_email (fst (validate_register P b))))
                     (ByUsername (b_username (fst (validate_register P b))))) db_check = None"
    and "User_create P db_create (fst (validate_register P b)) salt newid now = Inl DuplicateKey"
  shows "register P E db_check db_create salt newid now b
           = (json_msg 500 ''Server error'', db_create)
       \<and> json_msg 500 ''Server error'' \<noteq> already_exists"
proof -
  from assms(2,3)
  have "register_handler P E db_check db_create salt newid now (fst (validate_register P b))
          = (json_msg 500 ''Server error'', db_create)"
    by (simp add: register_handler_def register_try_def)
  with assms(1) have "register P E db_check db_create salt newid now b
           = (json_msg 500 ''Server error'', db_create)"
    by (cases "validate_register P b") (simp add: register_def)
  moreover have "json_msg 500 ''Server error'' \<noteq> already_exists"
    by (simp add: json_msg_def already_exists_def)
  ultimately show ?thesis by simp
qed

theorem C6_duplicate_on_create_witness:
  "register sample_platform sample_env [] sample_store ''$s$'' 2 7
      (empty_body\<lparr> b_username := Val ''alice'', b_password := Val ''abcdef'',
                   b_email := Val ''al@x.com'' \<rparr>)
     = (json_msg 500 ''Server error'', sample_store)"
proof -
  let ?b = "empty_body\<lparr> b_username := Val ''alice'', b_password := Val ''abcdef'',
                        b_email := Val ''al@x.com'' \<rparr>"
  have v: "validate_register sample_platform ?b = (?b, [])"
    by (simp add: validate_register_defs empty_body_def string_defs regex_defs)
  have s: "snd (validate_register sample_platform ?b) = []"
    by (simp add: v)
  have f: "findOne (Or (ByEmail (b_email (fst (validate_register sample_platform ?b))))
                     (ByUsername (b_username (fst (validate_register sample_platform ?b))))) []
             = None"
    by (simp add: findOne_def)
  have c: "User_create sample_platform sample_store (fst (validate_register sample_platform ?b))
             ''$s$'' 2 7 = Inl DuplicateKey"
    unfolding v fst_conv
    by (simp add: create_defs store_defs string_defs empty_body_def sample_store_def alice_def)
  from C6_duplicate_on_create [OF s f c, of sample_env]
  show ?thesis by blast
qed

theorem C6_counterexample:
  "snd (validate_register sample_platform
          (empty_body\<lparr> b_username := Val ''al'', b_password := Val ''abcdef'',
                       b_email := Val ''a@x.com'' \<rparr>)) = []
   \<and> findOne (Or (ByEmail (Val ''a@x.com'')) (ByUsername (Val ''al''))) [] = None
   \<and> User_create sample_platform sample_store
        (empty_body\<lparr> b_username := Val ''al'', b_password := Val ''abcdef'',
                     b_email := Val ''a@x.com'' \<rparr>) ''$s$'' 2 7 = Inl DuplicateKey
   \<and> fst (register sample_platform sample_env [] sample_store ''$s$'' 2 7
        (empty_body\<lparr> b_username := Val ''al'', b_password := Val ''abcdef'',
                     b_email := Val ''a@x.com'' \<rparr>))
       = \<lparr> status = 500, body = JObj [(''message'', JStr ''Server error'')] \<rparr>
   \<and> \<not> (fst (register sample_platform sample_env [] sample_store ''$s$'' 2 7
        (empty_body\<lparr> b_username := Val ''al'', b_password := Val ''abcdef'',
                     b_email := Val ''a@x.com'' \<rparr>)) = already_exists)"
proof -
  let ?b = "empty_body\<lparr> b_username := Val ''al'', b_password := Val ''abcdef'',
                        b_email := Val ''a@x.com'' \<rparr>"
  have v: "validate_register sample_platform ?b = (?b, [])"
    by (simp add: validate_register_defs empty_body_def string_defs regex_defs)
  have c: "User_create sample_platform sample_store ?b ''$s$'' 2 7 = Inl DuplicateKey"
    by (simp add: create_defs store_defs string_defs empty_body_def sample_store_def alice_def)
  have r: "register sample_platform sample_env [] sample_store ''$s$'' 2 7 ?b
      = (json_msg 500 ''Server error'', sample_store)"
    by (simp add: register_def v register_handler_def register_try_def findOne_def c)
  show ?thesis
    by (simp add: v c r findOne_def) (simp add: json_msg_def already_exists_def)
qed




end
